theory Spec2Isabelle
  imports Main "HOL-Library.Sublist" "HOL-Library.Word"
begin

section \<open>JavaScript values and library functions\<close>

text \<open>
  The action is TypeScript. Optional fields (\<open>x?: T\<close>) are \<open>T option\<close>, with
  \<open>None\<close> for \<open>undefined\<close>. The tests \<open>!x\<close>, \<open>x || y\<close> and \<open>x ? a : b\<close> go by
  JavaScript truthiness: \<open>undefined\<close>, the empty string, the number 0 and \<open>false\<close>
  are falsy. The operator \<open>??\<close> only looks at \<open>undefined\<close>. Strings are byte lists,
  a \<open>Buffer\<close> is a list of octets.
\<close>

type_synonym buffer = "8 word list"

definition truthy_str :: "string option \<Rightarrow> bool" where
  "truthy_str s = (case s of None \<Rightarrow> False | Some t \<Rightarrow> t \<noteq> [])"

definition truthy_num :: "int option \<Rightarrow> bool" where
  "truthy_num n = (case n of None \<Rightarrow> False | Some k \<Rightarrow> k \<noteq> 0)"

definition truthy_bool :: "bool option \<Rightarrow> bool" where
  "truthy_bool b = (case b of None \<Rightarrow> False | Some v \<Rightarrow> v)"

text \<open>\<open>Array.prototype.join\<close> on an array of strings.\<close>

fun join :: "string \<Rightarrow> string list \<Rightarrow> string" where
  "join sep [] = []"
| "join sep [x] = x"
| "join sep (x # y # ys) = x @ sep @ join sep (y # ys)"

text \<open>
  \<open>String.prototype.replace\<close> with a string pattern: the first occurrence only,
  wherever it stands.
\<close>

fun replace_first :: "string \<Rightarrow> string \<Rightarrow> string \<Rightarrow> string" where
  "replace_first pat rep [] = (if pat = [] then rep else [])"
| "replace_first pat rep (c # cs) =
     (if prefix pat (c # cs) then rep @ drop (length pat) (c # cs)
      else c # replace_first pat rep cs)"

text \<open>Decimal rendering of a number in a template string (integers only).\<close>

definition digit_char :: "nat \<Rightarrow> char" where
  "digit_char d = ''0123456789'' ! (d mod 10)"

fun decimal_nat :: "nat \<Rightarrow> string" where
  "decimal_nat n = (if n < 10 then [digit_char n] else decimal_nat (n div 10) @ [digit_char n])"

declare decimal_nat.simps [simp del]

definition decimal :: "int \<Rightarrow> string" where
  "decimal i = (if i < 0 then CHR ''-'' # decimal_nat (nat (- i)) else decimal_nat (nat i))"

subsection \<open>\<open>Buffer.toString('base64')\<close>\<close>

definition base64_alphabet :: string where
  "base64_alphabet = ''ABCDEFGHIJKLMNOPQRSTUVWXYZabcdefghijklmnopqrstuvwxyz0123456789+/''"

definition sextet :: "nat \<Rightarrow> char" where
  "sextet n = base64_alphabet ! (n mod 64)"

fun base64_octets :: "nat list \<Rightarrow> string" where
  "base64_octets [] = []"
| "base64_octets [a] = [sextet (a div 4), sextet ((a mod 4) * 16), CHR ''='', CHR ''='']"
| "base64_octets [a, b] =
     [sextet (a div 4), sextet ((a mod 4) * 16 + b div 16), sextet ((b mod 16) * 4), CHR ''='']"
| "base64_octets (a # b # c # rest) =
     [sextet (a div 4), sextet ((a mod 4) * 16 + b div 16),
      sextet ((b mod 16) * 4 + c div 64), sextet (c mod 64)] @ base64_octets rest"

definition toString_base64 :: "buffer \<Rightarrow> string" where
  "toString_base64 b = base64_octets (map unat b)"

subsection \<open>\<open>path.posix.join\<close>\<close>

text \<open>
  Node's \<open>path.posix.join\<close>: the non-empty arguments are joined with a slash and the
  result is normalised (empty and \<open>.\<close> segments dropped, \<open>..\<close> resolved against the
  segment before it, a leading and a trailing slash kept).
\<close>

fun segments :: "string \<Rightarrow> string list" where
  "segments [] = [[]]"
| "segments (c # cs) =
     (if c = CHR ''/'' then [] # segments cs
      else (case segments cs of [] \<Rightarrow> [[c]] | s # ss \<Rightarrow> (c # s) # ss))"

definition normalize_step :: "bool \<Rightarrow> string list \<Rightarrow> string \<Rightarrow> string list" where
  "normalize_step allowAboveRoot res seg =
     (if seg = [] \<or> seg = ''.'' then res
      else if seg = ''..'' then
        (case res of
           [] \<Rightarrow> (if allowAboveRoot then [''..''] else [])
         | r # rs \<Rightarrow>
             (if r = ''..'' then (if allowAboveRoot then ''..'' # r # rs else r # rs) else rs))
      else seg # res)"

definition normalizeString :: "string \<Rightarrow> bool \<Rightarrow> string" where
  "normalizeString p allowAboveRoot =
     join ''/'' (rev (foldl (normalize_step allowAboveRoot) [] (segments p)))"

definition posix_normalize :: "string \<Rightarrow> string" where
  "posix_normalize p =
     (if p = [] then ''.''
      else
        (let isAbs = (hd p = CHR ''/'');
             trailingSeparator = (last p = CHR ''/'');
             res = normalizeString p (\<not> isAbs)
         in if res = [] then (if isAbs then ''/'' else if trailingSeparator then ''./'' else ''.'')
            else (if isAbs then ''/'' else []) @ res @ (if trailingSeparator then ''/'' else [])))"

definition posix_join :: "string list \<Rightarrow> string" where
  "posix_join args =
     (let given = filter (\<lambda>a. a \<noteq> []) args
      in if given = [] then ''.'' else posix_normalize (join ''/'' given))"

text \<open>
  The platform's \<open>path\<close> module (\<open>posix\<close> or \<open>win32\<close>, and \<open>relative\<close> reads the
  process's working directory), taken as a parameter.
\<close>

record path_module =
  isAbsolute :: "string \<Rightarrow> bool"
  relative :: "string \<Rightarrow> string \<Rightarrow> string"
  basename :: "string \<Rightarrow> string"

section \<open>Errors\<close>

text \<open>
  What a collaborator (the credentials provider, the Git client, the file system) throws
  is an \<open>exn\<close>; the handler lets it through as \<open>Thrown\<close>. \<open>InputError\<close> and
  \<open>Error\<close> are the two kinds the action itself raises; \<open>TypeError\<close> is the
  run-time's, on reading a property of \<open>undefined\<close>.
\<close>

type_synonym exn = string

datatype error = InputError string | Error string | TypeError string | Thrown exn

section \<open>Change-list construction\<close>

datatype version_control_change_type = NoChange | Add | Edit | Rename | Delete

datatype item_content_type = RawText | Base64Encoded

text \<open>An entry of the directory listing: \<open>{ path, content }\<close>.\<close>

record serialized_file =
  path :: string
  content :: "buffer option"

record git_item =
  item_path :: string

record item_content =
  encoded :: string
  contentType :: item_content_type

record git_change =
  changeType :: version_control_change_type
  item :: git_item
  newContent :: "item_content option"

text \<open>The callback of \<open>directoryContents.map\<close> (lines 444-460).\<close>

definition to_change :: "path_module \<Rightarrow> string \<Rightarrow> string option \<Rightarrow> serialized_file \<Rightarrow> error + git_change" where
  "to_change pm fileRoot targetPath file =
     (let relativePath = (if isAbsolute pm (path file) then relative pm fileRoot (path file)
                          else path file);
          fullPath = posix_join [''/'', (case targetPath of None \<Rightarrow> [] | Some t \<Rightarrow> t), relativePath]
      in case content file of
           None \<Rightarrow> Inl (TypeError ''Cannot read properties of undefined (reading 'toString')'')
         | Some buf \<Rightarrow>
             Inr \<lparr> changeType = Add,
                   item = \<lparr> item_path = fullPath \<rparr>,
                   newContent = Some \<lparr> encoded = toString_base64 buf, contentType = Base64Encoded \<rparr> \<rparr>)"

text \<open>\<open>Array.prototype.map\<close> with a callback that may throw: the first throw ends the call.\<close>

fun map_throwing :: "('a \<Rightarrow> error + 'b) \<Rightarrow> 'a list \<Rightarrow> error + 'b list" where
  "map_throwing f [] = Inr []"
| "map_throwing f (x # xs) =
     (case f x of
        Inl e \<Rightarrow> Inl e
      | Inr y \<Rightarrow> (case map_throwing f xs of Inl e \<Rightarrow> Inl e | Inr ys \<Rightarrow> Inr (y # ys)))"

text \<open>The filter's test (line 461): \<open>change.newContent && change.newContent.content\<close>.\<close>

definition valid_change :: "git_change \<Rightarrow> bool" where
  "valid_change change = (case newContent change of None \<Rightarrow> False | Some c \<Rightarrow> encoded c \<noteq> [])"

definition generateGitChanges ::
  "path_module \<Rightarrow> serialized_file list \<Rightarrow> string \<Rightarrow> string option \<Rightarrow> error + git_change list" where
  "generateGitChanges pm directoryContents fileRoot targetPath =
     (case map_throwing (to_change pm fileRoot targetPath) directoryContents of
        Inl e \<Rightarrow> Inl e
      | Inr changes \<Rightarrow> Inr (filter valid_change changes))"

section \<open>The remote client and the host\<close>

datatype credential_type = Pat | Bearer

record credentials =
  cred_type :: credential_type
  cred_token :: string

datatype auth_handler = PersonalAccessTokenHandler string | BearerHandler string

record git_repository =
  repository_id :: "string option"
  defaultBranch :: "string option"

record git_commit_ref =
  commitId :: "string option"

record git_branch_stats =
  commit :: "git_commit_ref option"

record git_ref_update =
  name :: string
  oldObjectId :: "string option"
  newObjectId :: "string option"

record git_commit =
  comment :: string
  changes :: "git_change list"

record git_push =
  refUpdates :: "git_ref_update list"
  commits :: "git_commit list"

datatype pull_request_status = NotSet | Active | Abandoned | Completed | AllStatuses

record identity_ref =
  uniqueName :: string

record web_api_tag =
  tag_name :: string

record git_pull_request =
  pullRequestId :: "int option"
  sourceRefName :: "string option"
  targetRefName :: "string option"
  pr_title :: "string option"
  pr_description :: "string option"
  isDraft :: "bool option"
  pr_reviewers :: "identity_ref list"
  labels :: "web_api_tag list"

record search_criteria =
  search_sourceRefName :: string
  search_targetRefName :: string
  search_status :: pull_request_status

text \<open>
  The operations of the Git client the handler uses. The remote is a state \<open>'r\<close> that
  every operation may read and change; an operation answers with a value or throws.
  \<open>getGitApi\<close> stands for \<open>new WebApi(url, authHandler)\<close> followed by
  \<open>webApi.getGitApi()\<close>.
\<close>

record 'r git_api =
  getGitApi :: "string \<Rightarrow> auth_handler \<Rightarrow> 'r \<Rightarrow> (exn + unit) \<times> 'r"
  getRepository :: "string \<Rightarrow> string \<Rightarrow> 'r \<Rightarrow> (exn + git_repository option) \<times> 'r"
  getBranch :: "string \<Rightarrow> string \<Rightarrow> string \<Rightarrow> 'r \<Rightarrow> (exn + git_branch_stats option) \<times> 'r"
  updateRefs :: "git_ref_update list \<Rightarrow> string option \<Rightarrow> string \<Rightarrow> 'r \<Rightarrow> (exn + unit) \<times> 'r"
  createPush :: "git_push \<Rightarrow> string option \<Rightarrow> string \<Rightarrow> 'r \<Rightarrow> (exn + unit) \<times> 'r"
  getPullRequests ::
    "string option \<Rightarrow> search_criteria \<Rightarrow> string \<Rightarrow> 'r \<Rightarrow> (exn + git_pull_request list option) \<times> 'r"
  createPullRequest ::
    "git_pull_request \<Rightarrow> string option \<Rightarrow> string \<Rightarrow> 'r \<Rightarrow> (exn + git_pull_request) \<times> 'r"

text \<open>Every use of the client is recorded, with its arguments, in the order made.\<close>

datatype call =
    GetGitApi string auth_handler
  | GetRepository string string
  | GetBranch string string string
  | UpdateRefs "git_ref_update list" "string option" string
  | CreatePush git_push "string option" string
  | GetPullRequests "string option" search_criteria string
  | CreatePullRequest git_pull_request "string option" string

text \<open>
  What the handler is given besides its input: the credentials provider built from the
  integrations, the file-system helpers, the client, and the library functions that
  depend on the platform.
\<close>

record 'r environment =
  path_lib :: path_module
  encodeURIComponent :: "string \<Rightarrow> string"
  stringify :: "git_pull_request \<Rightarrow> string"
  getCredentials :: "string \<Rightarrow> exn + credentials option"
  resolveSafeChildPath :: "string \<Rightarrow> string \<Rightarrow> exn + string"
  serializeDirectoryContents :: "string \<Rightarrow> exn + serialized_file list"
  gitApi :: "'r git_api"

record action_input =
  host :: "string option"
  organization :: string
  project :: string
  repo :: string
  sourceBranchName :: string
  targetBranchName :: "string option"
  title :: string
  description :: string
  draft :: "bool option"
  targetPath :: "string option"
  sourcePath :: "string option"
  token :: "string option"
  reviewers :: "string list option"
  teamReviewers :: "string list option"
  commitMessage :: "string option"
  update :: "bool option"
  createSourceBranch :: "bool option"

record action_context =
  input :: action_input
  isDryRun :: bool
  workspacePath :: string

datatype output_value = Str string | Num int

record 'r world =
  remote :: 'r
  calls :: "call list"
  outputs :: "(string \<times> output_value) list"

section \<open>Sequencing\<close>

text \<open>
  A piece of the handler runs in a world and either throws, returns from the handler
  (the \<open>return\<close> of the dry run), or goes on with a value. The logger is left out: it
  decides nothing.
\<close>

datatype 'a outcome = Threw error | Returned | Next 'a

type_synonym ('r, 'a) step = "'r world \<Rightarrow> 'a outcome \<times> 'r world"

definition proceed :: "'a \<Rightarrow> ('r, 'a) step" where
  "proceed a = (\<lambda>w. (Next a, w))"

definition throw :: "error \<Rightarrow> ('r, 'a) step" where
  "throw e = (\<lambda>w. (Threw e, w))"

definition return_early :: "('r, 'a) step" where
  "return_early = (\<lambda>w. (Returned, w))"

definition bind :: "('r, 'a) step \<Rightarrow> ('a \<Rightarrow> ('r, 'b) step) \<Rightarrow> ('r, 'b) step" where
  "bind m f = (\<lambda>w. case m w of
                      (Threw e, w') \<Rightarrow> (Threw e, w')
                    | (Returned, w') \<Rightarrow> (Returned, w')
                    | (Next a, w') \<Rightarrow> f a w')"

text \<open>Awaiting a collaborator that does not touch the remote.\<close>

definition await_local :: "exn + 'a \<Rightarrow> ('r, 'a) step" where
  "await_local r = (case r of Inl x \<Rightarrow> throw (Thrown x) | Inr v \<Rightarrow> proceed v)"

text \<open>A request to the client: recorded, run against the remote, its answer handed back.\<close>

definition request :: "call \<Rightarrow> ('r \<Rightarrow> (exn + 'a) \<times> 'r) \<Rightarrow> 'r world \<Rightarrow> (exn + 'a) \<times> 'r world" where
  "request c op w =
     (case op (remote w) of (answer, r') \<Rightarrow> (answer, w\<lparr>remote := r', calls := calls w @ [c]\<rparr>))"

definition await :: "call \<Rightarrow> ('r \<Rightarrow> (exn + 'a) \<times> 'r) \<Rightarrow> ('r, 'a) step" where
  "await c op = (\<lambda>w. case request c op w of
                        (Inl x, w') \<Rightarrow> (Threw (Thrown x), w')
                      | (Inr v, w') \<Rightarrow> (Next v, w'))"

definition ctx_output :: "string \<Rightarrow> output_value \<Rightarrow> ('r, unit) step" where
  "ctx_output key v = (\<lambda>w. (Next (), w\<lparr>outputs := outputs w @ [(key, v)]\<rparr>))"

section \<open>The handler\<close>

text \<open>
  The handler's parts, in the order of the source. Each reads the fields of
  \<open>ctx.input\<close> it needs from \<open>inp\<close>; the local variables of the source are the values
  handed from one part to the next.
\<close>

subsection \<open>Credentials and client (lines 209-226)\<close>

definition missing_credentials :: error where
  "missing_credentials =
     InputError ''No credentials provided for Azure DevOps. Please check your integrations config or provide a token.''"

text \<open>
  \<open>token || credentials?.type === 'pat' ? getPersonalAccessTokenHandler(token ?? credentials!.token)
  : getBearerHandler(credentials!.token)\<close>
\<close>

definition authHandler_of :: "string option \<Rightarrow> credentials option \<Rightarrow> error + auth_handler" where
  "authHandler_of tok creds =
     (if truthy_str tok \<or> (case creds of None \<Rightarrow> False | Some c \<Rightarrow> cred_type c = Pat)
      then (case tok of
              Some t \<Rightarrow> Inr (PersonalAccessTokenHandler t)
            | None \<Rightarrow>
                (case creds of
                   None \<Rightarrow> Inl (TypeError ''Cannot read properties of undefined (reading 'token')'')
                 | Some c \<Rightarrow> Inr (PersonalAccessTokenHandler (cred_token c))))
      else (case creds of
              None \<Rightarrow> Inl (TypeError ''Cannot read properties of undefined (reading 'token')'')
            | Some c \<Rightarrow> Inr (BearerHandler (cred_token c))))"

definition base_url :: "'r environment \<Rightarrow> action_input \<Rightarrow> string" where
  "base_url env inp =
     ''https://'' @ (case host inp of None \<Rightarrow> ''dev.azure.com'' | Some h \<Rightarrow> h) @ ''/''
       @ encodeURIComponent env (organization inp)"

definition resolveClient :: "'r environment \<Rightarrow> action_input \<Rightarrow> ('r, string) step" where
  "resolveClient env inp =
     (let url = base_url env inp
      in bind (await_local (getCredentials env url)) (\<lambda>creds.
           if creds = None \<and> \<not> truthy_str (token inp) then throw missing_credentials
           else (case authHandler_of (token inp) creds of
                   Inl e \<Rightarrow> throw e
                 | Inr authHandler \<Rightarrow>
                     bind (await (GetGitApi url authHandler) (getGitApi (gitApi env) url authHandler))
                       (\<lambda>_. proceed url))))"

subsection \<open>Dry run (lines 228-240 and 464-487)\<close>

definition mocked_url :: "action_input \<Rightarrow> string" where
  "mocked_url inp =
     ''https://mocked-url/'' @ organization inp @ ''/'' @ project inp @ ''/'' @ repo inp
       @ ''/pullrequest/123''"

definition performDryRun :: "action_input \<Rightarrow> ('r, unit) step" where
  "performDryRun inp =
     bind (ctx_output ''pullRequestUrl'' (Str (mocked_url inp)))
       (\<lambda>_. ctx_output ''pullRequestId'' (Num 123))"

definition dryRunCheck :: "action_context \<Rightarrow> ('r, unit) step" where
  "dryRunCheck ctx =
     (if isDryRun ctx then bind (performDryRun (input ctx)) (\<lambda>_. return_early)
      else proceed ())"

subsection \<open>Repository and target branch (lines 242-266)\<close>

definition repository_not_found :: "action_input \<Rightarrow> error" where
  "repository_not_found inp =
     Error (''Repository '' @ repo inp @ '' not found in project '' @ project inp @ ''.'')"

definition ensureRepository :: "'r environment \<Rightarrow> action_input \<Rightarrow> ('r, git_repository) step" where
  "ensureRepository env inp =
     bind (await (GetRepository (repo inp) (project inp))
             (getRepository (gitApi env) (repo inp) (project inp)))
       (\<lambda>repository.
          case repository of
            None \<Rightarrow> throw (repository_not_found inp)
          | Some r \<Rightarrow> proceed r)"

definition no_default_branch :: "action_input \<Rightarrow> error" where
  "no_default_branch inp =
     Error (''No target branch specified, and the repository '' @ repo inp
            @ '' does not have a default branch.'')"

definition defaultTargetBranch :: "action_input \<Rightarrow> git_repository \<Rightarrow> ('r, string) step" where
  "defaultTargetBranch inp repository =
     (case defaultBranch repository of
        None \<Rightarrow> throw (no_default_branch inp)
      | Some d \<Rightarrow>
          if d = [] then throw (no_default_branch inp)
          else proceed (replace_first ''refs/heads/'' [] d))"

definition resolveTargetBranch :: "action_input \<Rightarrow> git_repository \<Rightarrow> ('r, string) step" where
  "resolveTargetBranch inp repository =
     (case targetBranchName inp of
        None \<Rightarrow> defaultTargetBranch inp repository
      | Some t \<Rightarrow> if t = [] then defaultTargetBranch inp repository else proceed t)"

subsection \<open>The latest commit of a branch (lines 268-274)\<close>

definition branch_not_found :: "action_input \<Rightarrow> string \<Rightarrow> error" where
  "branch_not_found inp branch =
     Error (''Branch '' @ branch @ '' not found in repository '' @ repo inp @ ''.'')"

definition getLatestCommit ::
  "'r environment \<Rightarrow> action_input \<Rightarrow> string \<Rightarrow> ('r, string option) step" where
  "getLatestCommit env inp branch =
     bind (await (GetBranch (repo inp) branch (project inp))
             (getBranch (gitApi env) (repo inp) branch (project inp)))
       (\<lambda>branchRef.
          case branchRef of
            None \<Rightarrow> throw (branch_not_found inp branch)
          | Some b \<Rightarrow>
              (case commit b of
                 None \<Rightarrow> throw (branch_not_found inp branch)
               | Some c \<Rightarrow> proceed (commitId c)))"

subsection \<open>Source branch (lines 276-315)\<close>

definition zero_object_id :: string where
  "zero_object_id = ''0000000000000000000000000000000000000000''"

definition source_ref :: "action_input \<Rightarrow> string" where
  "source_ref inp = ''refs/heads/'' @ sourceBranchName inp"

definition new_branch_update :: "action_input \<Rightarrow> string option \<Rightarrow> git_ref_update" where
  "new_branch_update inp latest =
     \<lparr> name = source_ref inp, oldObjectId = Some zero_object_id, newObjectId = latest \<rparr>"

text \<open>
  The value that goes on is \<open>sourceBranchDoesNotExist\<close>. The \<open>try\<close> holds the lookup
  alone; whatever the lookup throws lands in the \<open>catch\<close>, which creates the branch.
\<close>

definition createBranch ::
  "'r environment \<Rightarrow> action_input \<Rightarrow> git_repository \<Rightarrow> string \<Rightarrow> ('r, bool option) step" where
  "createBranch env inp repository resolvedTargetBranchName =
     bind (getLatestCommit env inp resolvedTargetBranchName) (\<lambda>latest.
     bind (await (UpdateRefs [new_branch_update inp latest] (repository_id repository) (project inp))
             (updateRefs (gitApi env) [new_branch_update inp latest] (repository_id repository)
                (project inp)))
       (\<lambda>_. proceed (createSourceBranch inp)))"

definition createSourceBranchIfMissing ::
  "'r environment \<Rightarrow> action_input \<Rightarrow> git_repository \<Rightarrow> string \<Rightarrow> ('r, bool option) step" where
  "createSourceBranchIfMissing env inp repository resolvedTargetBranchName =
     (if truthy_bool (createSourceBranch inp) then
        (\<lambda>w. case request (GetBranch (repo inp) (sourceBranchName inp) (project inp))
                     (getBranch (gitApi env) (repo inp) (sourceBranchName inp) (project inp)) w of
                (Inr branch, w') \<Rightarrow>
                  (Next (if branch \<noteq> None then Some False else createSourceBranch inp), w')
              | (Inl thrown, w') \<Rightarrow> createBranch env inp repository resolvedTargetBranchName w')
      else proceed (createSourceBranch inp))"

subsection \<open>Reading the directory (lines 317-330)\<close>

definition resolveFileRoot :: "'r environment \<Rightarrow> action_context \<Rightarrow> exn + string" where
  "resolveFileRoot env ctx =
     (case sourcePath (input ctx) of
        None \<Rightarrow> Inr (workspacePath ctx)
      | Some p \<Rightarrow>
          if p = [] then Inr (workspacePath ctx)
          else resolveSafeChildPath env (workspacePath ctx) p)"

definition readChanges ::
  "'r environment \<Rightarrow> action_context \<Rightarrow> ('r, serialized_file list \<times> git_change list) step" where
  "readChanges env ctx =
     bind (await_local (resolveFileRoot env ctx)) (\<lambda>fileRoot.
     bind (await_local (serializeDirectoryContents env fileRoot)) (\<lambda>directoryContents.
       case generateGitChanges (path_lib env) directoryContents fileRoot (targetPath (input ctx)) of
         Inl e \<Rightarrow> throw e
       | Inr changeList \<Rightarrow> proceed (directoryContents, changeList)))"

subsection \<open>The push (lines 332-356)\<close>

definition automated_comment :: "path_module \<Rightarrow> serialized_file list \<Rightarrow> string" where
  "automated_comment pm directoryContents =
     ''Automated commit from Backstage scaffolder. Added files: ''
       @ join '', '' (map (\<lambda>file. basename pm (path file)) directoryContents)"

definition push_comment :: "path_module \<Rightarrow> action_input \<Rightarrow> serialized_file list \<Rightarrow> string" where
  "push_comment pm inp directoryContents =
     (case commitMessage inp of
        None \<Rightarrow> automated_comment pm directoryContents
      | Some m \<Rightarrow> if m = [] then automated_comment pm directoryContents else m)"

definition buildPush ::
  "'r environment \<Rightarrow> action_input \<Rightarrow> string \<Rightarrow> bool option \<Rightarrow> serialized_file list
     \<Rightarrow> git_change list \<Rightarrow> ('r, git_push) step" where
  "buildPush env inp resolvedTargetBranchName sourceBranchDoesNotExist directoryContents changeList =
     bind (if truthy_bool sourceBranchDoesNotExist
           then getLatestCommit env inp resolvedTargetBranchName
           else getLatestCommit env inp (sourceBranchName inp)) (\<lambda>old.
       proceed
         \<lparr> refUpdates = [\<lparr> name = source_ref inp, oldObjectId = old, newObjectId = None \<rparr>],
           commits = [\<lparr> comment = push_comment (path_lib env) inp directoryContents,
                       changes = changeList \<rparr>] \<rparr>)"

definition no_changes :: error where
  "no_changes = Error ''No changes to push. The changes array is empty.''"

definition pushChanges ::
  "'r environment \<Rightarrow> action_input \<Rightarrow> git_repository \<Rightarrow> git_change list \<Rightarrow> git_push
     \<Rightarrow> ('r, unit) step" where
  "pushChanges env inp repository changeList push =
     (if changeList = [] then throw no_changes
      else await (CreatePush push (repository_id repository) (project inp))
             (createPush (gitApi env) push (repository_id repository) (project inp)))"

subsection \<open>The pull request (lines 358-433)\<close>

text \<open>
  Modelled from the spec: \<open>getAzureDevOpsPullRequestURL\<close> of
  \<open>utils/azure-devops-utils\<close>, whose source is not among the files (its tests are). The
  spec gives the URL as \<open><baseUrl>/<urlEncode(project)>/_git/<urlEncode(repo)>/pullrequest/<id>\<close>.
\<close>

definition getAzureDevOpsPullRequestURL ::
  "(string \<Rightarrow> string) \<Rightarrow> string \<Rightarrow> string \<Rightarrow> string \<Rightarrow> int \<Rightarrow> string" where
  "getAzureDevOpsPullRequestURL urlEncode baseUrl proj rep prId =
     baseUrl @ ''/'' @ urlEncode proj @ ''/_git/'' @ urlEncode rep @ ''/pullrequest/'' @ decimal prId"

definition target_ref :: "string \<Rightarrow> string" where
  "target_ref resolvedTargetBranchName = ''refs/heads/'' @ resolvedTargetBranchName"

definition new_pull_request :: "action_input \<Rightarrow> string \<Rightarrow> git_pull_request" where
  "new_pull_request inp resolvedTargetBranchName =
     \<lparr> pullRequestId = None,
       sourceRefName = Some (source_ref inp),
       targetRefName = Some (target_ref resolvedTargetBranchName),
       pr_title = Some (title inp),
       pr_description = Some (description inp),
       isDraft = draft inp,
       pr_reviewers = map (\<lambda>reviewer. \<lparr> uniqueName = reviewer \<rparr>)
                        (case reviewers inp of None \<Rightarrow> [] | Some rs \<Rightarrow> rs),
       labels = [\<lparr> tag_name = ''devhub-generated'' \<rparr>] \<rparr>"

definition active_criteria :: "action_input \<Rightarrow> string \<Rightarrow> search_criteria" where
  "active_criteria inp resolvedTargetBranchName =
     \<lparr> search_sourceRefName = source_ref inp,
       search_targetRefName = target_ref resolvedTargetBranchName,
       search_status = Active \<rparr>"

definition without_id :: "'r environment \<Rightarrow> git_pull_request \<Rightarrow> error" where
  "without_id env pr = Error (''Pull request created without an ID: '' @ stringify env pr)"

text \<open>
  What both branches do with the pull request they hold: throw when
  \<open>!pr.pullRequestId\<close>, else emit the two outputs.
\<close>

definition reportPullRequest ::
  "'r environment \<Rightarrow> action_input \<Rightarrow> string \<Rightarrow> git_pull_request \<Rightarrow> ('r, unit) step" where
  "reportPullRequest env inp url pr =
     (case pullRequestId pr of
        None \<Rightarrow> throw (without_id env pr)
      | Some n \<Rightarrow>
          if n = 0 then throw (without_id env pr)
          else bind (ctx_output ''pullRequestUrl''
                       (Str (getAzureDevOpsPullRequestURL (encodeURIComponent env) url (project inp)
                               (repo inp) n)))
                 (\<lambda>_. ctx_output ''pullRequestId'' (Num n)))"

definition createOrReusePullRequest ::
  "'r environment \<Rightarrow> action_input \<Rightarrow> string \<Rightarrow> git_repository \<Rightarrow> string \<Rightarrow> ('r, unit) step" where
  "createOrReusePullRequest env inp url repository resolvedTargetBranchName =
     bind (await (GetPullRequests (repository_id repository)
                    (active_criteria inp resolvedTargetBranchName) (project inp))
             (getPullRequests (gitApi env) (repository_id repository)
                (active_criteria inp resolvedTargetBranchName) (project inp)))
       (\<lambda>found.
          case (case found of None \<Rightarrow> [] | Some prs \<Rightarrow> prs) of
            existingPullRequest # others \<Rightarrow> reportPullRequest env inp url existingPullRequest
          | [] \<Rightarrow>
              bind (await (CreatePullRequest (new_pull_request inp resolvedTargetBranchName)
                             (repository_id repository) (project inp))
                      (createPullRequest (gitApi env) (new_pull_request inp resolvedTargetBranchName)
                         (repository_id repository) (project inp)))
                (\<lambda>createdPullRequest. reportPullRequest env inp url createdPullRequest))"

subsection \<open>The whole handler\<close>

text \<open>
  The handler is the sequence of its parts. Three prefixes of the sequence are named,
  each handing on the local variables live at that point, so that "the invocation
  reaches the stage" can be said: the prefix ends in \<open>Next\<close>.
\<close>

definition steps_to_target ::
  "'r environment \<Rightarrow> action_context \<Rightarrow> ('r, string \<times> git_repository \<times> string) step" where
  "steps_to_target env ctx =
     bind (resolveClient env (input ctx)) (\<lambda>url.
     bind (dryRunCheck ctx) (\<lambda>_.
     bind (ensureRepository env (input ctx)) (\<lambda>repository.
     bind (resolveTargetBranch (input ctx) repository) (\<lambda>resolvedTargetBranchName.
       proceed (url, repository, resolvedTargetBranchName)))))"

definition steps_to_changes ::
  "'r environment \<Rightarrow> action_context
     \<Rightarrow> ('r, string \<times> git_repository \<times> string \<times> bool option \<times> serialized_file list \<times> git_change list) step" where
  "steps_to_changes env ctx =
     bind (steps_to_target env ctx) (\<lambda>(url, repository, resolvedTargetBranchName).
     bind (createSourceBranchIfMissing env (input ctx) repository resolvedTargetBranchName)
       (\<lambda>sourceBranchDoesNotExist.
     bind (readChanges env ctx) (\<lambda>(directoryContents, changeList).
       proceed (url, repository, resolvedTargetBranchName, sourceBranchDoesNotExist,
                directoryContents, changeList))))"

definition steps_to_push ::
  "'r environment \<Rightarrow> action_context \<Rightarrow> ('r, string \<times> git_repository \<times> string) step" where
  "steps_to_push env ctx =
     bind (steps_to_changes env ctx)
       (\<lambda>(url, repository, resolvedTargetBranchName, sourceBranchDoesNotExist, directoryContents,
           changeList).
     bind (buildPush env (input ctx) resolvedTargetBranchName sourceBranchDoesNotExist
             directoryContents changeList) (\<lambda>push.
     bind (pushChanges env (input ctx) repository changeList push) (\<lambda>_.
       proceed (url, repository, resolvedTargetBranchName))))"

definition run_handler :: "'r environment \<Rightarrow> action_context \<Rightarrow> ('r, unit) step" where
  "run_handler env ctx =
     bind (steps_to_push env ctx) (\<lambda>(url, repository, resolvedTargetBranchName).
       createOrReusePullRequest env (input ctx) url repository resolvedTargetBranchName)"

text \<open>The promise the handler returns: rejected with what was thrown, or resolved.\<close>

definition handler :: "'r environment \<Rightarrow> action_context \<Rightarrow> 'r world \<Rightarrow> (error + unit) \<times> 'r world" where
  "handler env ctx w =
     (case run_handler env ctx w of
        (Threw e, w') \<Rightarrow> (Inl e, w')
      | (Returned, w') \<Rightarrow> (Inr (), w')
      | (Next u, w') \<Rightarrow> (Inr (), w'))"

section \<open>Reading the record of calls\<close>

fun updates_refs :: "call \<Rightarrow> bool" where
  "updates_refs (UpdateRefs us rid proj) = True"
| "updates_refs c = False"

fun pushes :: "call \<Rightarrow> bool" where
  "pushes (CreatePush p rid proj) = True"
| "pushes c = False"

fun creates_pull_request :: "call \<Rightarrow> bool" where
  "creates_pull_request (CreatePullRequest pr rid proj) = True"
| "creates_pull_request c = False"

text \<open>
  Three properties of a piece of the handler, each kept by sequencing: it makes no call
  of a given kind; it leaves the outputs alone when it goes on; what it throws is of a
  given kind.
\<close>

definition quiet :: "(call \<Rightarrow> bool) \<Rightarrow> ('r, 'a) step \<Rightarrow> bool" where
  "quiet Q m = (\<forall>w. filter Q (calls (snd (m w))) = filter Q (calls w))"

definition silent :: "('r, 'a) step \<Rightarrow> bool" where
  "silent m = (\<forall>w a w'. m w = (Next a, w') \<longrightarrow> outputs w' = outputs w)"

definition throws_only :: "(error \<Rightarrow> bool) \<Rightarrow> ('r, 'a) step \<Rightarrow> bool" where
  "throws_only P m = (\<forall>w e w'. m w = (Threw e, w') \<longrightarrow> P e)"

fun not_input_error :: "error \<Rightarrow> bool" where
  "not_input_error (InputError m) = False"
| "not_input_error e = True"

section \<open>A remote and a host to run the handler on\<close>

text \<open>
  A small remote with one repository, its branches (name and head commit) and its pull
  requests, and a POSIX host. They are what the handler is evaluated on below; the
  theorems hold for every environment.
\<close>

definition posix_isAbsolute :: "string \<Rightarrow> bool" where
  "posix_isAbsolute p = (case p of [] \<Rightarrow> False | c # cs \<Rightarrow> c = CHR ''/'')"

definition posix_basename :: "string \<Rightarrow> string" where
  "posix_basename p = (case filter (\<lambda>s. s \<noteq> []) (segments p) of [] \<Rightarrow> [] | s # ss \<Rightarrow> last (s # ss))"

definition resolve_segments :: "string \<Rightarrow> string \<Rightarrow> string list" where
  "resolve_segments cwd p =
     rev (foldl (normalize_step False) [] (segments (if posix_isAbsolute p then p else cwd @ ''/'' @ p)))"

fun drop_common :: "string list \<Rightarrow> string list \<Rightarrow> string list \<times> string list" where
  "drop_common (a # as) (b # bs) = (if a = b then drop_common as bs else (a # as, b # bs))"
| "drop_common as bs = (as, bs)"

definition posix_relative :: "string \<Rightarrow> string \<Rightarrow> string \<Rightarrow> string" where
  "posix_relative cwd from to =
     (case drop_common (resolve_segments cwd from) (resolve_segments cwd to) of
        (up, down) \<Rightarrow> join ''/'' (map (\<lambda>s. ''..'') up @ down))"

definition posix_path :: "string \<Rightarrow> path_module" where
  "posix_path cwd =
     \<lparr> isAbsolute = posix_isAbsolute, relative = posix_relative cwd, basename = posix_basename \<rparr>"

definition hex_digit :: "nat \<Rightarrow> char" where
  "hex_digit n = ''0123456789ABCDEF'' ! (n mod 16)"

definition unreserved :: "char \<Rightarrow> bool" where
  "unreserved c =
     (c \<in> set ''ABCDEFGHIJKLMNOPQRSTUVWXYZabcdefghijklmnopqrstuvwxyz0123456789-_.!~*()'' \<or> c = CHR 0x27)"

definition percent_encode :: "string \<Rightarrow> string" where
  "percent_encode s =
     concat (map (\<lambda>c. if unreserved c then [c]
                       else [CHR ''%'', hex_digit (of_char c div 16), hex_digit (of_char c)]) s)"

record sim_remote =
  sim_repository :: "string \<times> git_repository"
  sim_branches :: "(string \<times> string) list"
  sim_pull_requests :: "git_pull_request list"
  sim_next_id :: int

definition sim_getRepository :: "string \<Rightarrow> string \<Rightarrow> sim_remote \<Rightarrow> (exn + git_repository option) \<times> sim_remote" where
  "sim_getRepository rep proj r =
     (Inr (if rep = fst (sim_repository r) then Some (snd (sim_repository r)) else None), r)"

definition sim_getBranch ::
  "string \<Rightarrow> string \<Rightarrow> string \<Rightarrow> sim_remote \<Rightarrow> (exn + git_branch_stats option) \<times> sim_remote" where
  "sim_getBranch rep branch proj r =
     (case map_of (sim_branches r) branch of
        None \<Rightarrow> (Inl (''Branch does not exist: '' @ branch), r)
      | Some c \<Rightarrow> (Inr (Some \<lparr> commit = Some \<lparr> commitId = Some c \<rparr> \<rparr>), r))"

definition move_ref :: "string \<Rightarrow> (string \<times> string) list \<Rightarrow> git_ref_update \<Rightarrow> (string \<times> string) list" where
  "move_ref fresh bs u =
     (replace_first ''refs/heads/'' [] (name u),
      (case newObjectId u of None \<Rightarrow> fresh | Some c \<Rightarrow> c)) # bs"

definition sim_updateRefs ::
  "git_ref_update list \<Rightarrow> string option \<Rightarrow> string \<Rightarrow> sim_remote \<Rightarrow> (exn + unit) \<times> sim_remote" where
  "sim_updateRefs us rid proj r = (Inr (), r\<lparr>sim_branches := foldl (move_ref []) (sim_branches r) us\<rparr>)"

definition sim_createPush ::
  "git_push \<Rightarrow> string option \<Rightarrow> string \<Rightarrow> sim_remote \<Rightarrow> (exn + unit) \<times> sim_remote" where
  "sim_createPush p rid proj r =
     (Inr (), r\<lparr>sim_branches :=
                  foldl (move_ref (''commit-'' @ decimal (int (length (sim_branches r)))))
                    (sim_branches r) (refUpdates p)\<rparr>)"

definition sim_getPullRequests ::
  "string option \<Rightarrow> search_criteria \<Rightarrow> string \<Rightarrow> sim_remote
     \<Rightarrow> (exn + git_pull_request list option) \<times> sim_remote" where
  "sim_getPullRequests rid crit proj r =
     (Inr (Some (filter (\<lambda>pr. sourceRefName pr = Some (search_sourceRefName crit)
                              \<and> targetRefName pr = Some (search_targetRefName crit))
                   (sim_pull_requests r))), r)"

definition sim_createPullRequest ::
  "git_pull_request \<Rightarrow> string option \<Rightarrow> string \<Rightarrow> sim_remote \<Rightarrow> (exn + git_pull_request) \<times> sim_remote" where
  "sim_createPullRequest pr rid proj r =
     (Inr (pr\<lparr>pullRequestId := Some (sim_next_id r)\<rparr>),
      r\<lparr>sim_pull_requests := sim_pull_requests r @ [pr\<lparr>pullRequestId := Some (sim_next_id r)\<rparr>],
        sim_next_id := sim_next_id r + 1\<rparr>)"

definition sim_api :: "sim_remote git_api" where
  "sim_api =
     \<lparr> getGitApi = (\<lambda>url h r. (Inr (), r)),
       getRepository = sim_getRepository,
       getBranch = sim_getBranch,
       updateRefs = sim_updateRefs,
       createPush = sim_createPush,
       getPullRequests = sim_getPullRequests,
       createPullRequest = sim_createPullRequest \<rparr>"

definition sim_env :: "credentials option \<Rightarrow> serialized_file list \<Rightarrow> sim_remote environment" where
  "sim_env creds files =
     \<lparr> path_lib = posix_path ''/'',
       encodeURIComponent = percent_encode,
       stringify = (\<lambda>pr. ''{}''),
       getCredentials = (\<lambda>url. Inr creds),
       resolveSafeChildPath = (\<lambda>base p. Inr (posix_join [base, p])),
       serializeDirectoryContents = (\<lambda>root. Inr files),
       gitApi = sim_api \<rparr>"

definition sim_input :: action_input where
  "sim_input =
     \<lparr> host = None, organization = ''my-org'', project = ''my project'', repo = ''my-repo'',
       sourceBranchName = ''feature'', targetBranchName = None, title = ''Add files'',
       description = ''Generated'', draft = None, targetPath = Some ''docs'', sourcePath = None,
       token = None, reviewers = Some [''ann@example.com''], teamReviewers = None,
       commitMessage = None, update = None, createSourceBranch = Some True \<rparr>"

definition sim_ctx :: action_context where
  "sim_ctx = \<lparr> input = sim_input, isDryRun = False, workspacePath = ''/ws'' \<rparr>"

definition sim_start :: "sim_remote world" where
  "sim_start =
     \<lparr> remote = \<lparr> sim_repository = (''my-repo'', \<lparr> repository_id = Some ''repo-1'',
                                                      defaultBranch = Some ''refs/heads/main'' \<rparr>),
                  sim_branches = [(''main'', ''c0ffee'')],
                  sim_pull_requests = [],
                  sim_next_id = 7 \<rparr>,
       calls = [],
       outputs = [] \<rparr>"

definition sim_pat :: "credentials option" where
  "sim_pat = Some \<lparr> cred_type = Pat, cred_token = ''secret'' \<rparr>"

definition sim_files :: "serialized_file list" where
  "sim_files =
     [\<lparr> path = ''README.md'', content = Some [0x68, 0x69] \<rparr>,
      \<lparr> path = ''/ws/src/.gitkeep'', content = Some [] \<rparr>,
      \<lparr> path = ''/ws/src/main.ts'', content = Some [0x4D, 0x61, 0x6E] \<rparr>]"

definition sim_changes :: "git_change list" where
  "sim_changes =
     [\<lparr> changeType = Add, item = \<lparr> item_path = ''/docs/README.md'' \<rparr>,
        newContent = Some \<lparr> encoded = ''aGk='', contentType = Base64Encoded \<rparr> \<rparr>,
      \<lparr> changeType = Add, item = \<lparr> item_path = ''/docs/src/main.ts'' \<rparr>,
        newContent = Some \<lparr> encoded = ''TWFu'', contentType = Base64Encoded \<rparr> \<rparr>]"

definition sim_pr :: git_pull_request where
  "sim_pr =
     \<lparr> pullRequestId = Some 7, sourceRefName = Some ''refs/heads/feature'',
       targetRefName = Some ''refs/heads/main'', pr_title = Some ''Add files'',
       pr_description = Some ''Generated'', isDraft = None,
       pr_reviewers = [\<lparr> uniqueName = ''ann@example.com'' \<rparr>],
       labels = [\<lparr> tag_name = ''devhub-generated'' \<rparr>] \<rparr>"

definition sim_open :: "sim_remote world" where
  "sim_open =
     \<lparr> remote = \<lparr> sim_repository = (''my-repo'', \<lparr> repository_id = Some ''repo-1'',
                                                      defaultBranch = Some ''refs/heads/main'' \<rparr>),
                  sim_branches = [(''feature'', ''f00d''), (''main'', ''c0ffee'')],
                  sim_pull_requests = [sim_pr],
                  sim_next_id = 8 \<rparr>,
       calls = [],
       outputs = [] \<rparr>"

definition sim_repo :: git_repository where
  "sim_repo = \<lparr> repository_id = Some ''repo-1'', defaultBranch = Some ''refs/heads/main'' \<rparr>"

definition sim_dry :: action_context where
  "sim_dry = \<lparr> input = sim_input, isDryRun = True, workspacePath = ''/ws'' \<rparr>"

definition sim_token_input :: action_context where
  "sim_token_input = sim_ctx\<lparr>input := sim_input\<lparr>token := Some ''t0ken''\<rparr>\<rparr>"

definition sim_plain :: action_context where
  "sim_plain = sim_ctx\<lparr>input := sim_input\<lparr>createSourceBranch := None\<rparr>\<rparr>"

text \<open>
  The spec's wording of the generated commit message: the base names of the changed
  files, that is, of the changes that are pushed.
\<close>

definition comment_of_changed_files :: "path_module \<Rightarrow> git_change list \<Rightarrow> string" where
  "comment_of_changed_files pm changeList =
     ''Automated commit from Backstage scaffolder. Added files: ''
       @ join '', '' (map (\<lambda>c. basename pm (item_path (item c))) changeList)"

definition sim_message :: action_context where
  "sim_message = sim_ctx\<lparr>input := sim_input\<lparr>commitMessage := Some ''Add docs''\<rparr>\<rparr>"

definition sim_develop :: action_context where
  "sim_develop = sim_ctx\<lparr>input := sim_input\<lparr>targetBranchName := Some ''develop''\<rparr>\<rparr>"

section \<open>The change list\<close>

lemma base64_octets_empty: "base64_octets ns = [] \<longleftrightarrow> ns = []"
  by (induction ns rule: base64_octets.induct) simp_all

lemma toString_base64_empty: "toString_base64 b = [] \<longleftrightarrow> b = []"
  by (simp add: toString_base64_def base64_octets_empty)

lemma map_throwing_Inr_iff: "map_throwing f xs = Inr ys \<longleftrightarrow> map f xs = map Inr ys"
proof (induction xs arbitrary: ys)
  case Nil
  then show ?case by auto
next
  case (Cons x xs)
  show ?case
  proof (cases "f x")
    case (Inl e)
    then show ?thesis by (cases ys) auto
  next
    case (Inr y)
    then show ?thesis
      by (cases ys) (auto split: sum.splits simp: Cons.IH [symmetric])
  qed
qed

lemma to_change_Some:
  "content f = Some b \<Longrightarrow>
   to_change pm root tp f =
     Inr \<lparr> changeType = Add,
           item = \<lparr> item_path = posix_join [''/'', (case tp of None \<Rightarrow> [] | Some t \<Rightarrow> t),
                     (if isAbsolute pm (path f) then relative pm root (path f) else path f)] \<rparr>,
           newContent = Some \<lparr> encoded = toString_base64 b, contentType = Base64Encoded \<rparr> \<rparr>"
  by (simp add: to_change_def Let_def)

lemma to_change_None:
  "content f = None \<Longrightarrow>
   to_change pm root tp f = Inl (TypeError ''Cannot read properties of undefined (reading 'toString')'')"
  by (simp add: to_change_def Let_def)

lemma to_change_Inr:
  "to_change pm root tp f = Inr c \<Longrightarrow>
   (\<exists>b. content f = Some b
        \<and> newContent c = Some \<lparr> encoded = toString_base64 b, contentType = Base64Encoded \<rparr>)
   \<and> changeType c = Add
   \<and> item_path (item c) = posix_join [''/'', (case tp of None \<Rightarrow> [] | Some t \<Rightarrow> t),
                     (if isAbsolute pm (path f) then relative pm root (path f) else path f)]"
  by (cases "content f") (auto simp: to_change_def Let_def)

lemma map_throwing_filter:
  "map_throwing f xs = Inr ys \<Longrightarrow> (\<And>x y. f x = Inr y \<Longrightarrow> Q y = P x)
   \<Longrightarrow> (\<And>x y. f x = Inr y \<Longrightarrow> h y = g x)
   \<Longrightarrow> map h (filter Q ys) = map g (filter P xs)"
proof (induction xs arbitrary: ys)
  case Nil
  then show ?case by simp
next
  case (Cons x xs)
  then show ?case by (auto split: sum.splits)
qed

text \<open>
  An entry without a \<open>content\<close> field makes the callback of \<open>map\<close> throw, and with it
  the whole call, whatever else the list holds.
\<close>

lemma map_throwing_to_change_Inl:
  "\<exists>f\<in>set dc. content f = None \<Longrightarrow>
   map_throwing (to_change pm root tp) dc =
     Inl (TypeError ''Cannot read properties of undefined (reading 'toString')'')"
proof (induction dc)
  case Nil
  then show ?case by simp
next
  case (Cons f dc)
  show ?case
  proof (cases "content f")
    case None
    then show ?thesis by (simp add: to_change_None)
  next
    case (Some b)
    with Cons show ?thesis by (simp add: to_change_Some)
  qed
qed

lemma generateGitChanges_throws:
  "\<exists>f\<in>set dc. content f = None \<Longrightarrow>
   generateGitChanges pm dc root tp =
     Inl (TypeError ''Cannot read properties of undefined (reading 'toString')'')"
  by (simp add: generateGitChanges_def map_throwing_to_change_Inl)

lemma generateGitChanges_Inl:
  "generateGitChanges pm dc root tp = Inl e \<Longrightarrow> not_input_error e"
proof -
  assume "generateGitChanges pm dc root tp = Inl e"
  then have "map_throwing (to_change pm root tp) dc = Inl e"
    by (simp add: generateGitChanges_def split: sum.splits)
  then obtain f where "to_change pm root tp f = Inl e"
    by (induction dc) (auto split: sum.splits)
  then show ?thesis
    by (cases "content f") (auto simp: to_change_def Let_def)
qed

text \<open>
  When every entry has its content, the call returns: one change per entry whose buffer is
  not empty, in the order of the listing, each an \<open>Add\<close> carrying the base64 text.
\<close>

lemma generateGitChanges_eq:
  "list_all (\<lambda>f. content f \<noteq> None) dc \<Longrightarrow>
   generateGitChanges pm dc root tp =
     Inr (map (\<lambda>f. \<lparr> changeType = Add,
                      item = \<lparr> item_path = posix_join [''/'', (case tp of None \<Rightarrow> [] | Some t \<Rightarrow> t),
                                (if isAbsolute pm (path f) then relative pm root (path f) else path f)] \<rparr>,
                      newContent = Some \<lparr> encoded = toString_base64 (the (content f)),
                                          contentType = Base64Encoded \<rparr> \<rparr>)
            (filter (\<lambda>f. content f \<noteq> Some []) dc))"
proof (induction dc)
  case Nil
  then show ?case by (simp add: generateGitChanges_def)
next
  case (Cons f dc)
  then obtain b where b: "content f = Some b" by auto
  from Cons show ?case
    by (auto simp: generateGitChanges_def to_change_Some [OF b] b valid_change_def
          toString_base64_empty split: sum.splits)
qed

lemma generateGitChanges_length:
  "generateGitChanges pm dc root tp = Inr cs \<Longrightarrow> length cs \<le> length dc"
proof -
  assume "generateGitChanges pm dc root tp = Inr cs"
  then obtain cs0 where cs0: "map_throwing (to_change pm root tp) dc = Inr cs0"
    and cs: "cs = filter valid_change cs0"
    by (auto simp: generateGitChanges_def split: sum.splits)
  from cs0 have "length cs0 = length dc"
    unfolding map_throwing_Inr_iff by (metis length_map)
  with cs show ?thesis
    by (metis length_filter_le)
qed

lemma generateGitChanges_valid:
  assumes "generateGitChanges pm dc root tp = Inr cs"
  shows "list_all (\<lambda>c. changeType c = Add \<and> valid_change c) cs"
proof -
  from assms obtain cs0 where cs0: "map_throwing (to_change pm root tp) dc = Inr cs0"
    and cs: "cs = filter valid_change cs0"
    by (auto simp: generateGitChanges_def split: sum.splits)
  have "changeType c = Add" if "c \<in> set cs0" for c
  proof -
    from cs0 have "map (to_change pm root tp) dc = map Inr cs0"
      by (simp add: map_throwing_Inr_iff)
    then have "Inr c \<in> set (map (to_change pm root tp) dc)"
      using that by simp
    then obtain f where "to_change pm root tp f = Inr c" by auto
    from to_change_Inr [OF this] show ?thesis by simp
  qed
  with cs show ?thesis by (simp add: list_all_iff)
qed

text \<open>
  Claim C2. Every change that \<open>generateGitChanges\<close> emits has as its remote path the
  POSIX join of \<open>/\<close>, the target path (the empty string when there is none) and the
  entry's path; an absolute entry path is first made relative to the file root, a
  relative one is joined as it is. The emitted changes are those of the entries whose
  encoded content is not empty, in the order of the listing.
\<close>

theorem generateGitChanges_paths:
  assumes "generateGitChanges pm directoryContents fileRoot tp = Inr emitted"
  shows "map (\<lambda>c. item_path (item c)) emitted =
         map (\<lambda>f. posix_join [''/'', (case tp of None \<Rightarrow> [] | Some t \<Rightarrow> t),
                     (if isAbsolute pm (path f) then relative pm fileRoot (path f) else path f)])
           (filter (\<lambda>f. case content f of None \<Rightarrow> False | Some b \<Rightarrow> toString_base64 b \<noteq> [])
              directoryContents)"
proof -
  obtain cs where cs: "map_throwing (to_change pm fileRoot tp) directoryContents = Inr cs"
    and em: "emitted = filter valid_change cs"
    using assms by (auto simp: generateGitChanges_def split: sum.splits)
  show ?thesis
    unfolding em
  proof (rule map_throwing_filter [OF cs])
    fix f c assume "to_change pm fileRoot tp f = Inr c"
    from to_change_Inr [OF this]
    show "valid_change c = (case content f of None \<Rightarrow> False | Some b \<Rightarrow> toString_base64 b \<noteq> [])"
      by (auto simp: valid_change_def)
  next
    fix f c assume "to_change pm fileRoot tp f = Inr c"
    from to_change_Inr [OF this]
    show "item_path (item c) = posix_join [''/'', (case tp of None \<Rightarrow> [] | Some t \<Rightarrow> t),
                     (if isAbsolute pm (path f) then relative pm fileRoot (path f) else path f)]"
      by simp
  qed
qed

lemma sim_changes_eval:
  "generateGitChanges (posix_path ''/'') sim_files ''/ws'' (Some ''docs'') = Inr sim_changes"
  by code_simp

theorem generateGitChanges_paths_witness:
  "generateGitChanges (posix_path ''/'') sim_files ''/ws'' (Some ''docs'') = Inr sim_changes
   \<and> map (\<lambda>c. item_path (item c)) sim_changes = [''/docs/README.md'', ''/docs/src/main.ts'']"
proof -
  have h: "generateGitChanges (posix_path ''/'') sim_files ''/ws'' (Some ''docs'') = Inr sim_changes"
    by (rule sim_changes_eval)
  from generateGitChanges_paths [OF h] show ?thesis
    using h by (simp add: sim_changes_def)
qed

text \<open>
  Claim C3. The claim has an entry with no \<open>content\<close> field dropped. On the listing
  \<open>[{path: 'a.txt', content: <68 69>}, {path: 'b.txt'}]\<close> the call throws instead:
  \<open>file.content.toString\<close> reads a property of \<open>undefined\<close> inside \<open>map\<close>, before the
  filter is reached. (For listings whose entries all have their content, the rest of the
  claim is \<open>generateGitChanges_eq\<close>, \<open>generateGitChanges_length\<close> and
  \<open>generateGitChanges_valid\<close>.)
\<close>

theorem generateGitChanges_absent_content:
  "generateGitChanges (posix_path ''/'')
     [\<lparr> path = ''a.txt'', content = Some [0x68, 0x69] \<rparr>, \<lparr> path = ''b.txt'', content = None \<rparr>]
     ''/ws'' None =
   Inl (TypeError ''Cannot read properties of undefined (reading 'toString')'')"
  by (simp add: generateGitChanges_def to_change_def)

section \<open>Sequencing laws\<close>

lemma bind_proceed: "bind (proceed a) f = f a"
  by (simp add: bind_def proceed_def)

lemma bind_throw: "bind (throw e) f = throw e"
  by (simp add: bind_def throw_def)

lemma bind_return_early: "bind return_early f = return_early"
  by (simp add: bind_def return_early_def)

lemma bind_assoc: "bind (bind m f) g = bind m (\<lambda>a. bind (f a) g)"
  by (auto simp: bind_def fun_eq_iff split: prod.splits outcome.splits)

lemma bind_Next: "m w = (Next a, w') \<Longrightarrow> bind m f w = f a w'"
  by (simp add: bind_def)

lemma bind_Threw: "m w = (Threw e, w') \<Longrightarrow> bind m f w = (Threw e, w')"
  by (simp add: bind_def)

lemma bind_Returned: "m w = (Returned, w') \<Longrightarrow> bind m f w = (Returned, w')"
  by (simp add: bind_def)

lemma calls_request: "calls (snd (request c op w)) = calls w @ [c]"
  by (simp add: request_def split: prod.splits)

lemma outputs_request: "outputs (snd (request c op w)) = outputs w"
  by (simp add: request_def split: prod.splits)

lemma calls_await: "calls (snd (await c op w)) = calls w @ [c]"
  using calls_request [of c op w]
  by (auto simp: await_def split: prod.splits sum.splits)

lemma calls_awaitD: "await c op w = (out, w') \<Longrightarrow> calls w' = calls w @ [c]"
  using calls_await [of c op w] by simp

named_theorems quiet_intros

lemma quiet_proceed [quiet_intros]: "quiet Q (proceed a)"
  by (simp add: quiet_def proceed_def)

lemma quiet_throw [quiet_intros]: "quiet Q (throw e)"
  by (simp add: quiet_def throw_def)

lemma quiet_return_early [quiet_intros]: "quiet Q return_early"
  by (simp add: quiet_def return_early_def)

lemma quiet_bind [quiet_intros]:
  assumes "quiet Q m" and "\<And>a. quiet Q (f a)"
  shows "quiet Q (bind m f)"
  unfolding quiet_def
proof
  fix w
  obtain out w' where mw: "m w = (out, w')" by (cases "m w")
  have kept: "filter Q (calls w') = filter Q (calls w)"
    using assms(1) mw unfolding quiet_def by (metis snd_conv)
  show "filter Q (calls (snd (bind m f w))) = filter Q (calls w)"
  proof (cases out)
    case (Next a)
    have "filter Q (calls (snd (f a w'))) = filter Q (calls w')"
      using assms(2) by (simp add: quiet_def)
    then show ?thesis using mw Next kept by (simp add: bind_def)
  qed (use mw kept in \<open>simp_all add: bind_def\<close>)
qed

lemma quiet_await_local [quiet_intros]: "quiet Q (await_local r)"
  by (cases r) (simp_all add: await_local_def quiet_intros)

lemma quiet_ctx_output [quiet_intros]: "quiet Q (ctx_output k v)"
  by (simp add: quiet_def ctx_output_def)

lemma quiet_await [quiet_intros]: "\<not> Q c \<Longrightarrow> quiet Q (await c op)"
  by (simp add: quiet_def calls_await)

lemma quiet_after:
  assumes "\<And>a. quiet Q (f a)"
  shows "filter Q (calls (snd (bind m f w))) = filter Q (calls (snd (m w)))"
proof -
  obtain out w' where mw: "m w = (out, w')" by (cases "m w")
  show ?thesis
  proof (cases out)
    case (Next a)
    have "filter Q (calls (snd (f a w'))) = filter Q (calls w')"
      using assms by (simp add: quiet_def)
    then show ?thesis using mw Next by (simp add: bind_def)
  qed (use mw in \<open>simp_all add: bind_def\<close>)
qed

lemma quietD: "quiet Q m \<Longrightarrow> m w = (out, w') \<Longrightarrow> filter Q (calls w') = filter Q (calls w)"
  unfolding quiet_def by (metis snd_conv)

named_theorems silent_intros

lemma silent_proceed [silent_intros]: "silent (proceed a)"
  by (simp add: silent_def proceed_def)

lemma silent_throw [silent_intros]: "silent (throw e)"
  by (simp add: silent_def throw_def)

lemma silent_return_early [silent_intros]: "silent return_early"
  by (simp add: silent_def return_early_def)

lemma silent_bind [silent_intros]:
  assumes "silent m" and "\<And>a. silent (f a)"
  shows "silent (bind m f)"
  unfolding silent_def
proof (intro allI impI)
  fix w b w''
  assume run: "bind m f w = (Next b, w'')"
  obtain out w' where mw: "m w = (out, w')" by (cases "m w")
  from run mw obtain a where out: "out = Next a" and fa: "f a w' = (Next b, w'')"
    by (cases out) (auto simp: bind_def)
  from assms(1) mw out have "outputs w' = outputs w" by (auto simp: silent_def)
  moreover from assms(2) fa have "outputs w'' = outputs w'" by (auto simp: silent_def)
  ultimately show "outputs w'' = outputs w" by simp
qed

lemma silent_await_local [silent_intros]: "silent (await_local r)"
  by (cases r) (simp_all add: await_local_def silent_intros)

lemma silent_await [silent_intros]: "silent (await c op)"
  using outputs_request [of c op]
  by (auto simp: silent_def await_def split: prod.splits sum.splits) (metis snd_conv)+

named_theorems throws_intros

lemma throws_proceed [throws_intros]: "throws_only P (proceed a)"
  by (simp add: throws_only_def proceed_def)

lemma throws_throw [throws_intros]: "P e \<Longrightarrow> throws_only P (throw e)"
  by (simp add: throws_only_def throw_def)

lemma throws_return_early [throws_intros]: "throws_only P return_early"
  by (simp add: throws_only_def return_early_def)

lemma throws_bind [throws_intros]:
  assumes "throws_only P m" and "\<And>a. throws_only P (f a)"
  shows "throws_only P (bind m f)"
  unfolding throws_only_def
proof (intro allI impI)
  fix w e w''
  assume run: "bind m f w = (Threw e, w'')"
  obtain out w' where mw: "m w = (out, w')" by (cases "m w")
  show "P e"
  proof (cases out)
    case (Threw e')
    with run mw have "e' = e" by (simp add: bind_def)
    with assms(1) mw Threw show ?thesis by (auto simp: throws_only_def)
  next
    case Returned
    with run mw show ?thesis by (simp add: bind_def)
  next
    case (Next a)
    with run mw have "f a w' = (Threw e, w'')" by (simp add: bind_def)
    with assms(2) show ?thesis by (auto simp: throws_only_def)
  qed
qed

lemma throws_await_local [throws_intros]: "(\<And>x. P (Thrown x)) \<Longrightarrow> throws_only P (await_local r)"
  by (cases r) (simp_all add: await_local_def throws_intros)

lemma throws_await [throws_intros]: "(\<And>x. P (Thrown x)) \<Longrightarrow> throws_only P (await c op)"
  by (auto simp: throws_only_def await_def split: prod.splits sum.splits)

lemma throws_ctx_output [throws_intros]: "throws_only P (ctx_output k v)"
  by (simp add: throws_only_def ctx_output_def)

section \<open>The parts of the handler\<close>

lemma resolveClient_missing:
  assumes "getCredentials env (base_url env inp) = Inr None" and "\<not> truthy_str (token inp)"
  shows "resolveClient env inp w = (Threw missing_credentials, w)"
  using assms
  by (simp add: resolveClient_def Let_def bind_def await_local_def proceed_def throw_def)

lemma getLatestCommit_not_Returned: "getLatestCommit env inp branch w \<noteq> (Returned, w')"
  by (auto simp: getLatestCommit_def bind_def await_def throw_def proceed_def
        split: prod.splits sum.splits option.splits)

lemma createBranch_Next:
  "createBranch env inp repository target w = (Next d, w') \<Longrightarrow> d = createSourceBranch inp"
  by (auto simp: createBranch_def bind_def proceed_def await_def
        split: prod.splits outcome.splits sum.splits)

lemma createSourceBranchIfMissing_Next:
  assumes "createSourceBranchIfMissing env inp repository target w = (Next dne, w')"
  shows "truthy_bool dne =
           (truthy_bool (createSourceBranch inp)
            \<and> (case fst (getBranch (gitApi env) (repo inp) (sourceBranchName inp) (project inp) (remote w)) of
                 Inr (Some b) \<Rightarrow> False
               | other \<Rightarrow> True))"
proof (cases "truthy_bool (createSourceBranch inp)")
  case False
  with assms show ?thesis by (simp add: createSourceBranchIfMissing_def proceed_def)
next
  case True
  obtain answer r where lookup:
    "getBranch (gitApi env) (repo inp) (sourceBranchName inp) (project inp) (remote w) = (answer, r)"
    by (cases "getBranch (gitApi env) (repo inp) (sourceBranchName inp) (project inp) (remote w)")
  show ?thesis
  proof (cases answer)
    case (Inl x)
    with assms True lookup have "dne = createSourceBranch inp"
      by (auto simp: createSourceBranchIfMissing_def request_def dest: createBranch_Next)
    with True Inl lookup show ?thesis by simp
  next
    case (Inr branch)
    with assms True lookup show ?thesis
      by (cases branch) (auto simp: createSourceBranchIfMissing_def request_def truthy_bool_def)
  qed
qed

lemma readChanges_Next:
  assumes "readChanges env ctx w = (Next (dc, cl), w')"
  shows "w' = w
         \<and> (case resolveFileRoot env ctx of
              Inl x \<Rightarrow> False
            | Inr fileRoot \<Rightarrow>
                serializeDirectoryContents env fileRoot = Inr dc
                \<and> generateGitChanges (path_lib env) dc fileRoot (targetPath (input ctx)) = Inr cl)"
  using assms
  by (auto simp: readChanges_def bind_def await_local_def throw_def proceed_def
        split: sum.splits prod.splits outcome.splits)

lemma buildPush_run:
  "buildPush env inp target dne dc cl w =
     (case getLatestCommit env inp (if truthy_bool dne then target else sourceBranchName inp) w of
        (Next old, w') \<Rightarrow>
          (Next \<lparr> refUpdates = [\<lparr> name = source_ref inp, oldObjectId = old, newObjectId = None \<rparr>],
                  commits = [\<lparr> comment = push_comment (path_lib env) inp dc, changes = cl \<rparr>] \<rparr>, w')
      | (Threw e, w') \<Rightarrow> (Threw e, w')
      | (Returned, w') \<Rightarrow> (Returned, w'))"
  by (simp add: buildPush_def bind_def proceed_def split: prod.splits outcome.splits)

lemma createOrReusePullRequest_found:
  assumes "getPullRequests (gitApi env) (repository_id repository)
             (active_criteria inp target) (project inp) (remote w1)
           = (Inr (Some (existing # others)), r)"
  shows "createOrReusePullRequest env inp url repository target w1
         = reportPullRequest env inp url existing
             (w1\<lparr>remote := r,
                 calls := calls w1 @ [GetPullRequests (repository_id repository)
                            (active_criteria inp target) (project inp)]\<rparr>)"
  by (simp add: createOrReusePullRequest_def bind_def await_def request_def assms)

lemma reportPullRequest_run:
  "reportPullRequest env inp url pr w =
     (case pullRequestId pr of
        None \<Rightarrow> (Threw (without_id env pr), w)
      | Some n \<Rightarrow>
          if n = 0 then (Threw (without_id env pr), w)
          else (Next (),
                w\<lparr>outputs := outputs w @
                    [(''pullRequestUrl'',
                      Str (getAzureDevOpsPullRequestURL (encodeURIComponent env) url (project inp)
                             (repo inp) n)),
                     (''pullRequestId'', Num n)]\<rparr>))"
  by (simp add: reportPullRequest_def throw_def bind_def ctx_output_def split: option.splits)

lemma quiet_getLatestCommit [quiet_intros]:
  "\<not> Q (GetBranch (repo inp) branch (project inp)) \<Longrightarrow> quiet Q (getLatestCommit env inp branch)"
  unfolding getLatestCommit_def
  by (intro quiet_intros) (auto intro!: quiet_intros split: option.splits)

lemma quiet_resolveClient:
  "(\<And>url h. \<not> Q (GetGitApi url h)) \<Longrightarrow> quiet Q (resolveClient env inp)"
  unfolding resolveClient_def Let_def
  by (intro quiet_intros) (auto intro!: quiet_intros split: sum.splits)

lemma quiet_dryRunCheck: "quiet Q (dryRunCheck ctx)"
  unfolding dryRunCheck_def performDryRun_def
  by (auto intro!: quiet_intros)

lemma quiet_ensureRepository:
  "\<not> Q (GetRepository (repo inp) (project inp)) \<Longrightarrow> quiet Q (ensureRepository env inp)"
  unfolding ensureRepository_def
  by (intro quiet_intros) (auto intro!: quiet_intros split: option.splits)

lemma quiet_resolveTargetBranch: "quiet Q (resolveTargetBranch inp repository)"
  unfolding resolveTargetBranch_def defaultTargetBranch_def
  by (auto intro!: quiet_intros split: option.splits)

lemma quiet_readChanges: "quiet Q (readChanges env ctx)"
  unfolding readChanges_def
  by (intro quiet_intros) (auto intro!: quiet_intros split: sum.splits)

lemma quiet_buildPush:
  "(\<And>b. \<not> Q (GetBranch (repo inp) b (project inp))) \<Longrightarrow>
   quiet Q (buildPush env inp target dne dc cl)"
  unfolding buildPush_def
  by (intro quiet_intros) (auto intro!: quiet_intros)

lemma quiet_pushChanges:
  "(\<And>p. \<not> Q (CreatePush p (repository_id repository) (project inp))) \<Longrightarrow>
   quiet Q (pushChanges env inp repository cl push)"
  unfolding pushChanges_def
  by (auto intro!: quiet_intros)

lemma quiet_reportPullRequest: "quiet Q (reportPullRequest env inp url pr)"
  unfolding reportPullRequest_def
  by (auto intro!: quiet_intros split: option.splits)

lemma quiet_createBranch:
  "(\<And>b. \<not> Q (GetBranch (repo inp) b (project inp))) \<Longrightarrow>
   (\<And>us. \<not> Q (UpdateRefs us (repository_id repository) (project inp))) \<Longrightarrow>
   quiet Q (createBranch env inp repository target)"
  unfolding createBranch_def
  by (auto intro!: quiet_intros)

lemma quiet_createSourceBranchIfMissing:
  assumes "\<And>b. \<not> Q (GetBranch (repo inp) b (project inp))"
      and "\<And>us. \<not> Q (UpdateRefs us (repository_id repository) (project inp))"
  shows "quiet Q (createSourceBranchIfMissing env inp repository target)"
proof (cases "truthy_bool (createSourceBranch inp)")
  case False
  then show ?thesis by (simp add: createSourceBranchIfMissing_def quiet_intros)
next
  case True
  have cb: "quiet Q (createBranch env inp repository target)"
    using assms by (rule quiet_createBranch)
  show ?thesis
    unfolding quiet_def
  proof
    fix w
    let ?req = "request (GetBranch (repo inp) (sourceBranchName inp) (project inp))
                  (getBranch (gitApi env) (repo inp) (sourceBranchName inp) (project inp)) w"
    obtain answer w' where rq: "?req = (answer, w')" by (cases ?req)
    have "calls (snd ?req) = calls w @ [GetBranch (repo inp) (sourceBranchName inp) (project inp)]"
      by (rule calls_request)
    then have w': "filter Q (calls w') = filter Q (calls w)"
      using rq assms(1) by simp
    show "filter Q (calls (snd (createSourceBranchIfMissing env inp repository target w)))
          = filter Q (calls w)"
    proof (cases answer)
      case (Inr branch)
      then show ?thesis using True rq w' by (simp add: createSourceBranchIfMissing_def)
    next
      case (Inl x)
      then show ?thesis using True rq w' cb
        by (simp add: createSourceBranchIfMissing_def quiet_def)
    qed
  qed
qed

lemma quiet_createOrReusePullRequest:
  assumes "\<And>c. \<not> Q (GetPullRequests (repository_id repository) c (project inp))"
      and "\<And>pr. \<not> Q (CreatePullRequest pr (repository_id repository) (project inp))"
  shows "quiet Q (createOrReusePullRequest env inp url repository target)"
  unfolding createOrReusePullRequest_def
  using assms by (auto intro!: quiet_intros quiet_reportPullRequest split: option.splits list.splits)

lemma quiet_steps_to_target:
  assumes "\<And>url h. \<not> Q (GetGitApi url h)"
      and "\<And>r p. \<not> Q (GetRepository r p)"
  shows "quiet Q (steps_to_target env ctx)"
  unfolding steps_to_target_def
  using assms
  by (auto intro!: quiet_intros quiet_resolveClient quiet_dryRunCheck quiet_ensureRepository
        quiet_resolveTargetBranch)

lemma quiet_steps_to_changes:
  assumes "\<And>url h. \<not> Q (GetGitApi url h)"
      and "\<And>r p. \<not> Q (GetRepository r p)"
      and "\<And>r b p. \<not> Q (GetBranch r b p)"
      and "\<And>us r p. \<not> Q (UpdateRefs us r p)"
  shows "quiet Q (steps_to_changes env ctx)"
  unfolding steps_to_changes_def
  using assms
  by (auto intro!: quiet_intros quiet_steps_to_target quiet_createSourceBranchIfMissing
        quiet_readChanges)

lemma quiet_steps_to_push:
  assumes "\<And>url h. \<not> Q (GetGitApi url h)"
      and "\<And>r p. \<not> Q (GetRepository r p)"
      and "\<And>r b p. \<not> Q (GetBranch r b p)"
      and "\<And>us r p. \<not> Q (UpdateRefs us r p)"
      and "\<And>x r p. \<not> Q (CreatePush x r p)"
  shows "quiet Q (steps_to_push env ctx)"
  unfolding steps_to_push_def
  using assms
  by (auto intro!: quiet_intros quiet_steps_to_changes quiet_buildPush quiet_pushChanges)

lemma silent_getLatestCommit [silent_intros]: "silent (getLatestCommit env inp branch)"
  unfolding getLatestCommit_def
  by (auto intro!: silent_intros split: option.splits)

lemma silent_resolveClient: "silent (resolveClient env inp)"
  unfolding resolveClient_def Let_def
  by (auto intro!: silent_intros split: sum.splits)

lemma silent_dryRunCheck: "silent (dryRunCheck ctx)"
  by (auto simp: silent_def dryRunCheck_def performDryRun_def bind_def ctx_output_def
        return_early_def proceed_def)

lemma silent_ensureRepository: "silent (ensureRepository env inp)"
  unfolding ensureRepository_def
  by (auto intro!: silent_intros split: option.splits)

lemma silent_resolveTargetBranch: "silent (resolveTargetBranch inp repository)"
  unfolding resolveTargetBranch_def defaultTargetBranch_def
  by (auto intro!: silent_intros split: option.splits)

lemma silent_createSourceBranchIfMissing:
  "silent (createSourceBranchIfMissing env inp repository target)"
proof -
  have cb: "silent (createBranch env inp repository target)"
    unfolding createBranch_def by (auto intro!: silent_intros)
  show ?thesis
    using cb outputs_request [of "GetBranch (repo inp) (sourceBranchName inp) (project inp)"
        "getBranch (gitApi env) (repo inp) (sourceBranchName inp) (project inp)"]
    by (auto simp: silent_def createSourceBranchIfMissing_def proceed_def
          split: prod.splits sum.splits if_splits) (metis snd_conv)+
qed

lemma silent_readChanges: "silent (readChanges env ctx)"
  unfolding readChanges_def
  by (auto intro!: silent_intros split: sum.splits)

lemma silent_buildPush: "silent (buildPush env inp target dne dc cl)"
  unfolding buildPush_def
  by (auto intro!: silent_intros)

lemma silent_pushChanges: "silent (pushChanges env inp repository cl push)"
  unfolding pushChanges_def
  by (auto intro!: silent_intros)

lemma silent_steps_to_target: "silent (steps_to_target env ctx)"
  unfolding steps_to_target_def
  by (auto intro!: silent_intros silent_resolveClient silent_dryRunCheck silent_ensureRepository
        silent_resolveTargetBranch)

lemma silent_steps_to_changes: "silent (steps_to_changes env ctx)"
  unfolding steps_to_changes_def
  by (auto intro!: silent_intros silent_steps_to_target silent_createSourceBranchIfMissing
        silent_readChanges)

lemma silent_steps_to_push: "silent (steps_to_push env ctx)"
  unfolding steps_to_push_def
  by (auto intro!: silent_intros silent_steps_to_changes silent_buildPush silent_pushChanges)

lemma throws_getLatestCommit [throws_intros]:
  "throws_only not_input_error (getLatestCommit env inp branch)"
  unfolding getLatestCommit_def branch_not_found_def
  by (auto intro!: throws_intros split: option.splits)

lemma throws_after_client:
  "throws_only not_input_error
     (bind (dryRunCheck ctx) (\<lambda>_.
      bind (ensureRepository env (input ctx)) (\<lambda>repository.
      bind (resolveTargetBranch (input ctx) repository) (\<lambda>target.
      bind (createSourceBranchIfMissing env (input ctx) repository target) (\<lambda>dne.
      bind (readChanges env ctx) (\<lambda>(dc, cl).
      bind (buildPush env (input ctx) target dne dc cl) (\<lambda>push.
      bind (pushChanges env (input ctx) repository cl push) (\<lambda>_.
        createOrReusePullRequest env (input ctx) url repository target))))))))"
proof -
  have dry: "throws_only not_input_error (dryRunCheck ctx)"
    unfolding dryRunCheck_def performDryRun_def by (auto intro!: throws_intros)
  have rep: "throws_only not_input_error (ensureRepository env (input ctx))"
    unfolding ensureRepository_def repository_not_found_def
    by (auto intro!: throws_intros split: option.splits)
  have tgt: "throws_only not_input_error (resolveTargetBranch (input ctx) repository)" for repository
    unfolding resolveTargetBranch_def defaultTargetBranch_def no_default_branch_def
    by (auto intro!: throws_intros split: option.splits)
  have crb: "throws_only not_input_error (createBranch env (input ctx) repository target)"
    for repository target
    unfolding createBranch_def by (auto intro!: throws_intros)
  have src: "throws_only not_input_error
               (createSourceBranchIfMissing env (input ctx) repository target)" for repository target
    using crb [of repository target]
    by (auto simp: throws_only_def createSourceBranchIfMissing_def proceed_def
          split: prod.splits sum.splits if_splits)
  have rd: "throws_only not_input_error (readChanges env ctx)"
    unfolding readChanges_def
    by (auto intro!: throws_intros dest: generateGitChanges_Inl split: sum.splits)
  have bp: "throws_only not_input_error (buildPush env (input ctx) target dne dc cl)"
    for target dne dc cl
    unfolding buildPush_def by (auto intro!: throws_intros)
  have pc: "throws_only not_input_error (pushChanges env (input ctx) repository cl push)"
    for repository cl push
    unfolding pushChanges_def no_changes_def by (auto intro!: throws_intros)
  have rp: "throws_only not_input_error (reportPullRequest env (input ctx) url pr)" for pr
    unfolding reportPullRequest_def without_id_def
    by (auto intro!: throws_intros split: option.splits)
  have pr: "throws_only not_input_error
              (createOrReusePullRequest env (input ctx) url repository target)" for repository target
    unfolding createOrReusePullRequest_def
    by (auto intro!: throws_intros rp split: option.splits list.splits)
  show ?thesis
    by (intro throws_bind dry rep tgt src rd bp pc) (auto intro!: throws_intros bp pc pr)
qed

section \<open>The handler from a stage on\<close>

lemma snd_handler: "snd (handler env ctx w) = snd (run_handler env ctx w)"
  by (simp add: handler_def split: prod.splits outcome.splits)

lemma run_handler_from_client:
  "run_handler env ctx =
     bind (resolveClient env (input ctx)) (\<lambda>url.
     bind (dryRunCheck ctx) (\<lambda>_.
     bind (ensureRepository env (input ctx)) (\<lambda>repository.
     bind (resolveTargetBranch (input ctx) repository) (\<lambda>target.
     bind (createSourceBranchIfMissing env (input ctx) repository target) (\<lambda>dne.
     bind (readChanges env ctx) (\<lambda>(dc, cl).
     bind (buildPush env (input ctx) target dne dc cl) (\<lambda>push.
     bind (pushChanges env (input ctx) repository cl push) (\<lambda>_.
       createOrReusePullRequest env (input ctx) url repository target))))))))"
  unfolding run_handler_def steps_to_push_def steps_to_changes_def steps_to_target_def
  by (simp add: bind_assoc bind_proceed split_def)

text \<open>What is left of the handler once the target branch is known.\<close>

lemma run_handler_from_target:
  assumes "steps_to_target env ctx w = (Next (url, repository, target), w1)"
  shows "run_handler env ctx w =
           bind (createSourceBranchIfMissing env (input ctx) repository target) (\<lambda>dne.
           bind (readChanges env ctx) (\<lambda>(dc, cl).
           bind (buildPush env (input ctx) target dne dc cl) (\<lambda>push.
           bind (pushChanges env (input ctx) repository cl push) (\<lambda>_.
             createOrReusePullRequest env (input ctx) url repository target)))) w1"
  unfolding run_handler_def steps_to_push_def steps_to_changes_def
  by (simp add: bind_assoc bind_proceed split_def bind_Next [where m = "steps_to_target env ctx", OF assms])

lemma quiet_after_branch:
  assumes "\<And>r b p. \<not> Q (GetBranch r b p)"
      and "\<And>x r p. \<not> Q (CreatePush x r p)"
      and "\<And>r c p. \<not> Q (GetPullRequests r c p)"
      and "\<And>x r p. \<not> Q (CreatePullRequest x r p)"
  shows "quiet Q (bind (readChanges env ctx) (\<lambda>(dc, cl).
           bind (buildPush env (input ctx) target dne dc cl) (\<lambda>push.
           bind (pushChanges env (input ctx) repository cl push) (\<lambda>_.
             createOrReusePullRequest env (input ctx) url repository target))))"
  using assms
  by (auto intro!: quiet_intros quiet_readChanges quiet_buildPush quiet_pushChanges
        quiet_createOrReusePullRequest)

lemma run_handler_from_changes:
  assumes "steps_to_changes env ctx w = (Next (url, repository, target, dne, dc, cl), w1)"
  shows "run_handler env ctx w =
           bind (buildPush env (input ctx) target dne dc cl) (\<lambda>push.
           bind (pushChanges env (input ctx) repository cl push) (\<lambda>_.
             createOrReusePullRequest env (input ctx) url repository target)) w1"
  unfolding run_handler_def steps_to_push_def
  by (simp add: bind_assoc bind_proceed split_def
        bind_Next [where m = "steps_to_changes env ctx", OF assms])

lemma handler_from_push:
  assumes "steps_to_push env ctx w = (Next (url, repository, target), w1)"
  shows "handler env ctx w =
           (case createOrReusePullRequest env (input ctx) url repository target w1 of
              (Threw e, w') \<Rightarrow> (Inl e, w')
            | (Returned, w') \<Rightarrow> (Inr (), w')
            | (Next u, w') \<Rightarrow> (Inr (), w'))"
  by (simp add: handler_def run_handler_def bind_def assms)

lemma steps_to_push_frame:
  assumes "steps_to_push env ctx w = (Next (url, repository, target), w1)"
  shows "outputs w1 = outputs w"
    and "filter creates_pull_request (calls w1) = filter creates_pull_request (calls w)"
proof -
  show "outputs w1 = outputs w"
    using silent_steps_to_push [of env ctx] assms by (auto simp: silent_def)
  show "filter creates_pull_request (calls w1) = filter creates_pull_request (calls w)"
    by (rule quietD [OF quiet_steps_to_push assms]) simp_all
qed

section \<open>The pull-request URL\<close>

text \<open>
  The cases of the repository's test of \<open>getAzureDevOpsPullRequestURL\<close>, on the
  definition above with the percent-encoding of \<open>encodeURIComponent\<close>.
\<close>

lemma percent_encode_samples:
  "percent_encode ''my project'' = ''my%20project''"
  "percent_encode ''my repo'' = ''my%20repo''"
  "percent_encode ''project-with-dashes'' = ''project-with-dashes''"
  "percent_encode ''repo_with_underscores'' = ''repo_with_underscores''"
  "percent_encode ''my-project'' = ''my-project''"
  "percent_encode ''my-repo'' = ''my-repo''"
  by code_simp+

lemma decimal_samples:
  "decimal 456 = ''456''" "decimal 789 = ''789''" "decimal 1 = ''1''" "decimal 0 = ''0''"
  "decimal 999999 = ''999999''"
  by (simp_all add: decimal_def decimal_nat.simps digit_char_def)

lemma getAzureDevOpsPullRequestURL_tests:
  "getAzureDevOpsPullRequestURL percent_encode ''https://dev.azure.com/my-org'' ''my project''
     ''my repo'' 456
   = ''https://dev.azure.com/my-org/my%20project/_git/my%20repo/pullrequest/456''"
  "getAzureDevOpsPullRequestURL percent_encode ''https://dev.azure.com/my-org''
     ''project-with-dashes'' ''repo_with_underscores'' 789
   = ''https://dev.azure.com/my-org/project-with-dashes/_git/repo_with_underscores/pullrequest/789''"
  "getAzureDevOpsPullRequestURL percent_encode ''https://mycompany.visualstudio.com'' ''my-project''
     ''my-repo'' 1
   = ''https://mycompany.visualstudio.com/my-project/_git/my-repo/pullrequest/1''"
  "getAzureDevOpsPullRequestURL percent_encode ''https://dev.azure.com/my-org'' ''my-project''
     ''my-repo'' 0
   = ''https://dev.azure.com/my-org/my-project/_git/my-repo/pullrequest/0''"
  "getAzureDevOpsPullRequestURL percent_encode ''https://dev.azure.com/my-org'' ''my-project''
     ''my-repo'' 999999
   = ''https://dev.azure.com/my-org/my-project/_git/my-repo/pullrequest/999999''"
  by (simp_all add: getAzureDevOpsPullRequestURL_def percent_encode_samples decimal_samples)

section \<open>The missing-credentials error\<close>

text \<open>
  Claim C5. When the provider resolves no credentials and the input carries no token
  (\<open>!token\<close>: none, or the empty string), the handler throws the
  missing-credentials \<open>InputError\<close>, before any call. When credentials are found or
  a token is given, nothing the handler raises is an \<open>InputError\<close> (what a
  collaborator throws passes through as it is). The error is not of the generic kind.
\<close>

theorem missing_credentials_error:
  assumes creds: "getCredentials env (base_url env (input ctx)) = Inr creds"
  shows "(creds = None \<and> \<not> truthy_str (token (input ctx))
            \<longrightarrow> handler env ctx w = (Inl missing_credentials, w))
         \<and> (creds \<noteq> None \<or> truthy_str (token (input ctx))
            \<longrightarrow> (\<forall>m. fst (handler env ctx w) \<noteq> Inl (InputError m)))
         \<and> (\<forall>m. missing_credentials \<noteq> Error m)"
proof (cases "creds = None \<and> \<not> truthy_str (token (input ctx))")
  case True
  then have "resolveClient env (input ctx) w = (Threw missing_credentials, w)"
    using creds by (simp add: resolveClient_missing)
  then show ?thesis
    using True by (simp add: handler_def run_handler_from_client bind_def missing_credentials_def)
next
  case False
  have auth: "not_input_error e" if "authHandler_of (token (input ctx)) creds = Inl e" for e
    using that by (auto simp: authHandler_of_def split: if_splits option.splits)
  have client: "throws_only not_input_error (resolveClient env (input ctx))"
    using False auth
    by (auto simp: resolveClient_def Let_def creds await_local_def bind_proceed
          intro!: throws_intros split: sum.splits)
  have "throws_only not_input_error (run_handler env ctx)"
    unfolding run_handler_from_client
    by (intro throws_bind client throws_after_client)
  then have "not_input_error e" if "fst (handler env ctx w) = Inl e" for e
    using that
    by (auto simp: throws_only_def handler_def split: prod.splits outcome.splits)
  then have "fst (handler env ctx w) \<noteq> Inl (InputError m)" for m
    by fastforce
  then show ?thesis
    using False by (auto simp: missing_credentials_def)
qed

theorem missing_credentials_error_witness:
  "handler (sim_env None sim_files) sim_ctx sim_start = (Inl missing_credentials, sim_start)
   \<and> (\<forall>m. fst (handler (sim_env None sim_files) sim_token_input sim_start) \<noteq> Inl (InputError m))"
proof -
  have none: "getCredentials (sim_env None sim_files) (base_url (sim_env None sim_files) (input c)) = Inr None"
    for c by (simp add: sim_env_def)
  have no_token: "\<not> truthy_str (token (input sim_ctx))"
    by (simp add: sim_ctx_def sim_input_def truthy_str_def)
  have a_token: "truthy_str (token (input sim_token_input))"
    by (simp add: sim_token_input_def truthy_str_def)
  from missing_credentials_error [OF none, of sim_ctx sim_start]
       missing_credentials_error [OF none, of sim_token_input sim_start]
  show ?thesis
    using no_token a_token by simp
qed

section \<open>The dry run\<close>

text \<open>
  Claim C10. Credentials are resolved before the dry-run flag is looked at: a dry-run
  invocation for which the provider finds no credentials and that carries no token (none,
  or the empty string) throws the missing-credentials \<open>InputError\<close>; it emits no
  output and makes no call.
\<close>

theorem credentials_before_dry_run:
  assumes "getCredentials env (base_url env (input ctx)) = Inr None"
      and "\<not> truthy_str (token (input ctx))"
  shows "handler env (ctx\<lparr>isDryRun := True\<rparr>) w = (Inl missing_credentials, w)"
proof -
  have "resolveClient env (input (ctx\<lparr>isDryRun := True\<rparr>)) w = (Threw missing_credentials, w)"
    using assms by (simp add: resolveClient_missing)
  then show ?thesis
    by (simp add: handler_def run_handler_from_client bind_def)
qed

theorem credentials_before_dry_run_witness:
  "handler (sim_env None sim_files) sim_dry sim_start =
     (Inl (InputError ''No credentials provided for Azure DevOps. Please check your integrations config or provide a token.''),
      sim_start)"
proof -
  have none: "getCredentials (sim_env None sim_files) (base_url (sim_env None sim_files) (input sim_dry)) = Inr None"
    by (simp add: sim_env_def)
  have tok: "\<not> truthy_str (token (input sim_dry))"
    by (simp add: sim_dry_def sim_input_def truthy_str_def)
  have dry: "sim_dry\<lparr>isDryRun := True\<rparr> = sim_dry"
    by (simp add: sim_dry_def)
  from credentials_before_dry_run [OF none tok, of sim_start] show ?thesis
    by (simp add: dry missing_credentials_def)
qed

text \<open>
  Claim C6, as amended. The claim has every dry-run invocation emit the mocked outputs
  without touching the client. A dry-run invocation without credentials and token fails
  instead, with no output; and one with credentials obtains the client first. What
  holds: a dry-run invocation whose credentials
  resolve to an auth handler and whose client is obtained makes no call but that one,
  emits exactly \<open>pullRequestUrl = https://mocked-url/<org>/<project>/<repo>/pullrequest/123\<close>
  and \<open>pullRequestId = 123\<close>, built from the raw inputs, and returns.
\<close>

theorem dry_run_outputs:
  assumes creds: "getCredentials env (base_url env (input ctx)) = Inr creds"
      and auth: "authHandler_of (token (input ctx)) creds = Inr h"
      and client: "getGitApi (gitApi env) (base_url env (input ctx)) h (remote w) = (Inr (), r)"
  shows "handler env (ctx\<lparr>isDryRun := True\<rparr>) w =
           (Inr (),
            w\<lparr>remote := r,
              calls := calls w @ [GetGitApi (base_url env (input ctx)) h],
              outputs := outputs w @
                [(''pullRequestUrl'',
                  Str (''https://mocked-url/'' @ organization (input ctx) @ ''/'' @ project (input ctx)
                       @ ''/'' @ repo (input ctx) @ ''/pullrequest/123'')),
                 (''pullRequestId'', Num 123)]\<rparr>)"
proof -
  have guard: "\<not> (creds = None \<and> \<not> truthy_str (token (input ctx)))"
    using auth by (cases creds) (auto simp: authHandler_of_def split: if_splits)
  have "resolveClient env (input ctx) w =
          (Next (base_url env (input ctx)),
           w\<lparr>remote := r, calls := calls w @ [GetGitApi (base_url env (input ctx)) h]\<rparr>)"
    using guard
    by (auto simp: resolveClient_def Let_def bind_def await_local_def creds auth proceed_def
          await_def request_def client)
  then show ?thesis
    by (simp add: handler_def run_handler_from_client bind_def dryRunCheck_def performDryRun_def
          ctx_output_def return_early_def mocked_url_def)
qed

theorem dry_run_outputs_witness:
  "handler (sim_env sim_pat sim_files) sim_dry sim_start =
     (Inr (),
      sim_start\<lparr>calls := [GetGitApi ''https://dev.azure.com/my-org'' (PersonalAccessTokenHandler ''secret'')],
                outputs := [(''pullRequestUrl'',
                             Str ''https://mocked-url/my-org/my project/my-repo/pullrequest/123''),
                            (''pullRequestId'', Num 123)]\<rparr>)"
proof -
  have url: "base_url (sim_env sim_pat sim_files) (input sim_dry) = ''https://dev.azure.com/my-org''"
    by code_simp
  have creds: "getCredentials (sim_env sim_pat sim_files)
                 (base_url (sim_env sim_pat sim_files) (input sim_dry)) = Inr sim_pat"
    by (simp add: sim_env_def)
  have auth: "authHandler_of (token (input sim_dry)) sim_pat = Inr (PersonalAccessTokenHandler ''secret'')"
    by code_simp
  have client: "getGitApi (gitApi (sim_env sim_pat sim_files))
                  (base_url (sim_env sim_pat sim_files) (input sim_dry))
                  (PersonalAccessTokenHandler ''secret'') (remote sim_start)
                = (Inr (), remote sim_start)"
    by (simp add: sim_env_def sim_api_def)
  have dry: "sim_dry\<lparr>isDryRun := True\<rparr> = sim_dry"
    by (simp add: sim_dry_def)
  have inp: "organization (input sim_dry) = ''my-org''" "project (input sim_dry) = ''my project''"
    "repo (input sim_dry) = ''my-repo''"
    by (simp_all add: sim_dry_def sim_input_def)
  have start: "calls sim_start = []" "outputs sim_start = []"
    by (simp_all add: sim_start_def)
  from dry_run_outputs [OF creds auth client] show ?thesis
    by (simp add: dry url inp start)
qed

text \<open>
  The claim C6 as stated fails: the first invocation below is a dry run that throws and
  emits nothing; the second is a dry run whose record of calls holds the client.
\<close>

theorem dry_run_without_credentials:
  "isDryRun sim_dry
   \<and> fst (handler (sim_env None sim_files) sim_dry sim_start) = Inl missing_credentials
   \<and> outputs (snd (handler (sim_env None sim_files) sim_dry sim_start)) = []
   \<and> calls (snd (handler (sim_env sim_pat sim_files) sim_dry sim_start))
       = [GetGitApi ''https://dev.azure.com/my-org'' (PersonalAccessTokenHandler ''secret'')]"
  by code_simp

section \<open>Creation of the source branch\<close>

text \<open>
  Claim C7, as amended. In an invocation with \<open>createSourceBranch\<close> true that reaches
  the source-branch step: when the lookup of the source branch answers (with a branch, or
  with nothing), the invocation issues no \<open>updateRefs\<close> call; when the lookup throws
  and the latest commit of the target branch is fetched, it issues exactly one
  \<open>updateRefs\<close> call, with the single ref update named
  \<open>refs/heads/<sourceBranchName>\<close>, the all-zero old object id and that commit as new
  object id; when the lookup throws and the latest commit cannot be fetched, the handler
  fails there, throwing what the fetch threw, and issues none.
\<close>

theorem source_branch_creation:
  assumes reach: "steps_to_target env ctx w = (Next (url, repository, target), w1)"
      and wanted: "truthy_bool (createSourceBranch (input ctx))"
      and lookup: "getBranch (gitApi env) (repo (input ctx)) (sourceBranchName (input ctx))
                     (project (input ctx)) (remote w1) = (answer, r)"
  shows "filter updates_refs (calls (snd (handler env ctx w))) =
           filter updates_refs (calls w) @
           (case answer of
              Inr branch \<Rightarrow> []
            | Inl thrown \<Rightarrow>
                (case getLatestCommit env (input ctx) target
                        (w1\<lparr>remote := r,
                             calls := calls w1 @ [GetBranch (repo (input ctx))
                                        (sourceBranchName (input ctx)) (project (input ctx))]\<rparr>) of
                   (Next latest, w3) \<Rightarrow>
                     [UpdateRefs [\<lparr> name = ''refs/heads/'' @ sourceBranchName (input ctx),
                                    oldObjectId = Some ''0000000000000000000000000000000000000000'',
                                    newObjectId = latest \<rparr>]
                        (repository_id repository) (project (input ctx))]
                 | (other, w3) \<Rightarrow> []))
         \<and> (\<forall>thrown e w3.
               answer = Inl thrown \<longrightarrow>
               getLatestCommit env (input ctx) target
                 (w1\<lparr>remote := r,
                     calls := calls w1 @ [GetBranch (repo (input ctx))
                                (sourceBranchName (input ctx)) (project (input ctx))]\<rparr>)
                 = (Threw e, w3) \<longrightarrow>
               handler env ctx w = (Inl e, w3))"
proof -
  let ?inp = "input ctx"
  let ?w2 = "w1\<lparr>remote := r,
                 calls := calls w1 @ [GetBranch (repo ?inp) (sourceBranchName ?inp) (project ?inp)]\<rparr>"
  define rest where "rest = (\<lambda>dne. bind (readChanges env ctx) (\<lambda>(dc, cl).
           bind (buildPush env ?inp target dne dc cl) (\<lambda>push.
           bind (pushChanges env ?inp repository cl push) (\<lambda>_.
             createOrReusePullRequest env ?inp url repository target))))"
  have rest: "quiet updates_refs (rest dne)" for dne
    unfolding rest_def by (rule quiet_after_branch) simp_all
  have run: "run_handler env ctx w
             = bind (createSourceBranchIfMissing env ?inp repository target) rest w1"
    unfolding rest_def by (rule run_handler_from_target [OF reach])
  have before: "filter updates_refs (calls w1) = filter updates_refs (calls w)"
    by (rule quietD [OF quiet_steps_to_target reach]) simp_all
  have req: "request (GetBranch (repo ?inp) (sourceBranchName ?inp) (project ?inp))
               (getBranch (gitApi env) (repo ?inp) (sourceBranchName ?inp) (project ?inp)) w1
             = (answer, ?w2)"
    by (simp add: request_def lookup)
  have w2: "filter updates_refs (calls ?w2) = filter updates_refs (calls w)"
    using before by simp
  have issued: "filter updates_refs (calls (snd (handler env ctx w))) =
           filter updates_refs (calls w) @
           (case answer of
              Inr branch \<Rightarrow> []
            | Inl thrown \<Rightarrow>
                (case getLatestCommit env ?inp target ?w2 of
                   (Next latest, w3) \<Rightarrow>
                     [UpdateRefs [\<lparr> name = ''refs/heads/'' @ sourceBranchName ?inp,
                                    oldObjectId = Some ''0000000000000000000000000000000000000000'',
                                    newObjectId = latest \<rparr>]
                        (repository_id repository) (project ?inp)]
                 | (other, w3) \<Rightarrow> []))"
  proof (cases answer)
    case (Inr branch)
    then have "createSourceBranchIfMissing env ?inp repository target w1
               = (Next (if branch \<noteq> None then Some False else createSourceBranch ?inp), ?w2)"
      using wanted req by (simp add: createSourceBranchIfMissing_def)
    then show ?thesis
      using Inr w2 by (simp add: snd_handler run quiet_after [of updates_refs rest, OF rest])
  next
    case (Inl thrown)
    then have stage: "createSourceBranchIfMissing env ?inp repository target w1
                      = createBranch env ?inp repository target ?w2"
      using wanted req by (simp add: createSourceBranchIfMissing_def)
    obtain out w3 where latest: "getLatestCommit env ?inp target ?w2 = (out, w3)"
      by (cases "getLatestCommit env ?inp target ?w2")
    have w3: "filter updates_refs (calls w3) = filter updates_refs (calls w)"
      using quietD [OF quiet_getLatestCommit latest] w2 by simp
    show ?thesis
    proof (cases out)
      case (Next commitId)
      let ?u = "UpdateRefs [new_branch_update ?inp commitId] (repository_id repository) (project ?inp)"
      obtain out4 w4 where upd: "await ?u (updateRefs (gitApi env) [new_branch_update ?inp commitId]
                                   (repository_id repository) (project ?inp)) w3 = (out4, w4)"
        by (cases "await ?u (updateRefs (gitApi env) [new_branch_update ?inp commitId]
                                   (repository_id repository) (project ?inp)) w3")
      have w4: "calls w4 = calls w3 @ [?u]"
        by (rule calls_awaitD [OF upd])
      have "bind (createSourceBranchIfMissing env ?inp repository target) rest w1
            = bind (await ?u (updateRefs (gitApi env) [new_branch_update ?inp commitId]
                      (repository_id repository) (project ?inp))) (\<lambda>_. rest (createSourceBranch ?inp)) w3"
        by (simp add: bind_def stage createBranch_def latest Next proceed_def
              split: prod.splits outcome.splits)
      moreover have "filter updates_refs (calls (snd (bind (await ?u (updateRefs (gitApi env)
                      [new_branch_update ?inp commitId] (repository_id repository) (project ?inp)))
                      (\<lambda>_. rest (createSourceBranch ?inp)) w3)))
                     = filter updates_refs (calls w4)"
        by (simp add: quiet_after [of updates_refs "\<lambda>_. rest (createSourceBranch ?inp)", OF rest] upd)
      ultimately show ?thesis
        using Inl latest Next w3 w4
        by (simp add: snd_handler run new_branch_update_def source_ref_def zero_object_id_def)
    next
      case (Threw e)
      then have "bind (createSourceBranchIfMissing env ?inp repository target) rest w1 = (Threw e, w3)"
        by (simp add: bind_def stage createBranch_def latest)
      then show ?thesis using Inl latest Threw w3 by (simp add: snd_handler run)
    next
      case Returned
      then have "bind (createSourceBranchIfMissing env ?inp repository target) rest w1 = (Returned, w3)"
        by (simp add: bind_def stage createBranch_def latest)
      then show ?thesis using Inl latest Returned w3 by (simp add: snd_handler run)
    qed
  qed
  have fails: "handler env ctx w = (Inl e, w3)"
    if thrown: "answer = Inl thrown"
      and latest: "getLatestCommit env ?inp target ?w2 = (Threw e, w3)"
    for thrown e w3
  proof -
    have "createSourceBranchIfMissing env ?inp repository target w1
          = createBranch env ?inp repository target ?w2"
      using wanted req thrown by (simp add: createSourceBranchIfMissing_def)
    then have "bind (createSourceBranchIfMissing env ?inp repository target) rest w1 = (Threw e, w3)"
      by (simp add: bind_def createBranch_def latest)
    then show ?thesis
      by (simp add: handler_def run)
  qed
  from issued fails show ?thesis
    by blast
qed

lemma sim_target:
  "steps_to_target (sim_env sim_pat sim_files) sim_ctx sim_start
   = (Next (''https://dev.azure.com/my-org'', sim_repo, ''main''),
      snd (steps_to_target (sim_env sim_pat sim_files) sim_ctx sim_start))"
  by code_simp

lemma sim_wanted: "truthy_bool (createSourceBranch (input sim_ctx))"
  by code_simp

lemma sim_lookup:
  "getBranch (gitApi (sim_env sim_pat sim_files)) (repo (input sim_ctx))
     (sourceBranchName (input sim_ctx)) (project (input sim_ctx))
     (remote (snd (steps_to_target (sim_env sim_pat sim_files) sim_ctx sim_start)))
   = (Inl ''Branch does not exist: feature'',
      remote (snd (steps_to_target (sim_env sim_pat sim_files) sim_ctx sim_start)))"
  by code_simp

lemma sim_latest:
  "fst (getLatestCommit (sim_env sim_pat sim_files) (input sim_ctx) ''main''
     (snd (steps_to_target (sim_env sim_pat sim_files) sim_ctx sim_start)
        \<lparr>remote := remote (snd (steps_to_target (sim_env sim_pat sim_files) sim_ctx sim_start)),
         calls := calls (snd (steps_to_target (sim_env sim_pat sim_files) sim_ctx sim_start))
                  @ [GetBranch (repo (input sim_ctx)) (sourceBranchName (input sim_ctx))
                       (project (input sim_ctx))]\<rparr>))
   = Next (Some ''c0ffee'')"
  by code_simp

lemma sim_develop_target:
  "steps_to_target (sim_env sim_pat sim_files) sim_develop sim_start
   = (Next (''https://dev.azure.com/my-org'', sim_repo, ''develop''),
      sim_start\<lparr>calls := [GetGitApi ''https://dev.azure.com/my-org'' (PersonalAccessTokenHandler ''secret''),
                           GetRepository ''my-repo'' ''my project'']\<rparr>)"
  by code_simp

lemma sim_develop_wanted: "truthy_bool (createSourceBranch (input sim_develop))"
  by code_simp

lemma sim_develop_lookup:
  "getBranch (gitApi (sim_env sim_pat sim_files)) (repo (input sim_develop))
     (sourceBranchName (input sim_develop)) (project (input sim_develop))
     (remote (sim_start\<lparr>calls := [GetGitApi ''https://dev.azure.com/my-org''
                                      (PersonalAccessTokenHandler ''secret''),
                                    GetRepository ''my-repo'' ''my project'']\<rparr>))
   = (Inl ''Branch does not exist: feature'', remote sim_start)"
  by code_simp

lemma sim_develop_latest:
  "getLatestCommit (sim_env sim_pat sim_files) (input sim_develop) ''develop''
     (sim_start\<lparr>calls := [GetGitApi ''https://dev.azure.com/my-org'' (PersonalAccessTokenHandler ''secret''),
                          GetRepository ''my-repo'' ''my project'']\<rparr>
        \<lparr>remote := remote sim_start,
         calls := calls (sim_start\<lparr>calls := [GetGitApi ''https://dev.azure.com/my-org''
                                               (PersonalAccessTokenHandler ''secret''),
                                             GetRepository ''my-repo'' ''my project'']\<rparr>)
                  @ [GetBranch (repo (input sim_develop)) (sourceBranchName (input sim_develop))
                       (project (input sim_develop))]\<rparr>)
   = (Threw (Thrown ''Branch does not exist: develop''),
      sim_start\<lparr>calls := [GetGitApi ''https://dev.azure.com/my-org'' (PersonalAccessTokenHandler ''secret''),
                           GetRepository ''my-repo'' ''my project'',
                           GetBranch ''my-repo'' ''feature'' ''my project'',
                           GetBranch ''my-repo'' ''develop'' ''my project'']\<rparr>)"
  by code_simp

theorem source_branch_creation_witness:
  "filter updates_refs (calls (snd (handler (sim_env sim_pat sim_files) sim_ctx sim_start)))
   = [UpdateRefs [\<lparr> name = ''refs/heads/feature'',
                     oldObjectId = Some ''0000000000000000000000000000000000000000'',
                     newObjectId = Some ''c0ffee'' \<rparr>] (Some ''repo-1'') ''my project'']
   \<and> handler (sim_env sim_pat sim_files) sim_develop sim_start
       = (Inl (Thrown ''Branch does not exist: develop''),
          sim_start\<lparr>calls := [GetGitApi ''https://dev.azure.com/my-org'' (PersonalAccessTokenHandler ''secret''),
                               GetRepository ''my-repo'' ''my project'',
                               GetBranch ''my-repo'' ''feature'' ''my project'',
                               GetBranch ''my-repo'' ''develop'' ''my project'']\<rparr>)"
proof -
  have start: "calls sim_start = []" by (simp add: sim_start_def)
  have inp: "sourceBranchName (input sim_ctx) = ''feature''" "project (input sim_ctx) = ''my project''"
    "repository_id sim_repo = Some ''repo-1''"
    by (simp_all add: sim_ctx_def sim_input_def sim_repo_def)
  from source_branch_creation [OF sim_target sim_wanted sim_lookup, THEN conjunct1] sim_latest
  have created: "filter updates_refs (calls (snd (handler (sim_env sim_pat sim_files) sim_ctx sim_start)))
   = [UpdateRefs [\<lparr> name = ''refs/heads/feature'',
                     oldObjectId = Some ''0000000000000000000000000000000000000000'',
                     newObjectId = Some ''c0ffee'' \<rparr>] (Some ''repo-1'') ''my project'']"
    by (simp add: start inp split: prod.splits)
  have failed: "handler (sim_env sim_pat sim_files) sim_develop sim_start
       = (Inl (Thrown ''Branch does not exist: develop''),
          sim_start\<lparr>calls := [GetGitApi ''https://dev.azure.com/my-org'' (PersonalAccessTokenHandler ''secret''),
                               GetRepository ''my-repo'' ''my project'',
                               GetBranch ''my-repo'' ''feature'' ''my project'',
                               GetBranch ''my-repo'' ''develop'' ''my project'']\<rparr>)"
    by (rule source_branch_creation [OF sim_develop_target sim_develop_wanted sim_develop_lookup,
          THEN conjunct2, rule_format, OF refl sim_develop_latest])
  from created failed show ?thesis
    by (rule conjI)
qed

text \<open>
  The claim C7 as stated fails: below, \<open>createSourceBranch\<close> is true and the lookup of
  the source branch throws, but the target branch \<open>develop\<close> does not exist either; the
  handler fails on fetching its latest commit and no \<open>updateRefs\<close> call is made.
\<close>

theorem source_branch_not_created:
  "truthy_bool (createSourceBranch (input sim_develop))
   \<and> fst (steps_to_target (sim_env sim_pat sim_files) sim_develop sim_start)
       = Next (''https://dev.azure.com/my-org'', sim_repo, ''develop'')
   \<and> fst (getBranch (gitApi (sim_env sim_pat sim_files)) (repo (input sim_develop))
            (sourceBranchName (input sim_develop)) (project (input sim_develop))
            (remote (snd (steps_to_target (sim_env sim_pat sim_files) sim_develop sim_start))))
       = Inl ''Branch does not exist: feature''
   \<and> fst (handler (sim_env sim_pat sim_files) sim_develop sim_start)
       = Inl (Thrown ''Branch does not exist: develop'')
   \<and> filter updates_refs (calls (snd (handler (sim_env sim_pat sim_files) sim_develop sim_start))) = []"
  by code_simp

section \<open>An empty change list\<close>

text \<open>
  Claim C4, as amended. An invocation that reaches the push with an empty change list
  fails and never calls \<open>createPush\<close>. The push is built before the list is tested,
  and building it fetches the base commit: when that fetch succeeds the error is the
  generic "No changes to push. The changes array is empty."; when it fails, the fetch's
  failure is what the handler throws.
\<close>

theorem empty_change_list_aborts:
  assumes reach: "steps_to_changes env ctx w = (Next (url, repository, target, dne, dc, []), w1)"
  shows "filter pushes (calls (snd (handler env ctx w))) = filter pushes (calls w)
         \<and> fst (handler env ctx w) =
             (case fst (getLatestCommit env (input ctx)
                          (if truthy_bool dne then target else sourceBranchName (input ctx)) w1) of
                Threw e \<Rightarrow> Inl e
              | other \<Rightarrow> Inl no_changes)"
proof -
  let ?branch = "if truthy_bool dne then target else sourceBranchName (input ctx)"
  have run: "run_handler env ctx w
             = bind (buildPush env (input ctx) target dne dc []) (\<lambda>push. throw no_changes) w1"
    by (simp add: run_handler_from_changes [OF reach] pushChanges_def bind_throw)
  have before: "filter pushes (calls w1) = filter pushes (calls w)"
    by (rule quietD [OF quiet_steps_to_changes reach]) simp_all
  have "quiet pushes (bind (buildPush env (input ctx) target dne dc []) (\<lambda>push. throw no_changes))"
    by (intro quiet_intros quiet_buildPush) simp
  then have "filter pushes (calls (snd (run_handler env ctx w))) = filter pushes (calls w1)"
    unfolding run quiet_def by blast
  then have calls: "filter pushes (calls (snd (handler env ctx w))) = filter pushes (calls w)"
    using before by (simp add: snd_handler)
  obtain out w2 where latest: "getLatestCommit env (input ctx) ?branch w1 = (out, w2)"
    by (cases "getLatestCommit env (input ctx) ?branch w1")
  have "out \<noteq> Returned"
    using latest getLatestCommit_not_Returned by metis
  then have "fst (handler env ctx w) = (case out of Threw e \<Rightarrow> Inl e | other \<Rightarrow> Inl no_changes)"
    using latest
    by (cases out) (simp_all add: handler_def run bind_def buildPush_run throw_def)
  with calls latest show ?thesis by simp
qed

lemma sim_empty_reach:
  "steps_to_changes (sim_env sim_pat []) sim_ctx sim_start
   = (Next (''https://dev.azure.com/my-org'', sim_repo, ''main'', Some True, [], []),
      snd (steps_to_changes (sim_env sim_pat []) sim_ctx sim_start))"
  by code_simp

theorem empty_change_list_aborts_witness:
  "filter pushes (calls (snd (handler (sim_env sim_pat []) sim_ctx sim_start))) = []
   \<and> fst (handler (sim_env sim_pat []) sim_ctx sim_start)
       = Inl (Error ''No changes to push. The changes array is empty.'')"
proof -
  have start: "calls sim_start = []" by (simp add: sim_start_def)
  have latest: "fst (getLatestCommit (sim_env sim_pat []) (input sim_ctx)
                       (if truthy_bool (Some True) then ''main'' else sourceBranchName (input sim_ctx))
                       (snd (steps_to_changes (sim_env sim_pat []) sim_ctx sim_start)))
                = Next (Some ''c0ffee'')"
    by code_simp
  from empty_change_list_aborts [OF sim_empty_reach] show ?thesis
    by (simp add: start latest no_changes_def)
qed

text \<open>
  The claim C4 as stated fails: with \<open>createSourceBranch\<close> unset, no source branch on
  the remote and an empty directory, the change list is empty and the error is the
  branch lookup's.
\<close>

theorem empty_change_list_other_error:
  "fst (steps_to_changes (sim_env sim_pat []) sim_plain sim_start)
     = Next (''https://dev.azure.com/my-org'', sim_repo, ''main'', None, [], [])
   \<and> fst (handler (sim_env sim_pat []) sim_plain sim_start)
       = Inl (Thrown ''Branch does not exist: feature'')
   \<and> fst (handler (sim_env sim_pat []) sim_plain sim_start) \<noteq> Inl no_changes"
  by code_simp

section \<open>The push\<close>

text \<open>
  Claim C8, as amended. An invocation that reaches the push with a non-empty change list
  and fetches the base commit issues exactly one \<open>createPush\<close>. Its push has one ref
  update, for \<open>refs/heads/<sourceBranchName>\<close>, whose old object id is the latest
  commit of the target branch when \<open>sourceBranchDoesNotExist\<close> is set (the source
  branch was asked for and the lookup did not answer with a branch) and of the source
  branch otherwise; and one commit, whose changes are the filtered change list and whose
  comment is the commit message when one is given (\<open>commitMessage || ...\<close>: a string
  that is not empty), else the generated message. The generated message lists the base
  names of all entries of the directory listing, also of those that the filter dropped
  from the change list.
\<close>

theorem push_contents:
  assumes target: "steps_to_target env ctx w = (Next (url, repository, target), w1)"
      and source: "createSourceBranchIfMissing env (input ctx) repository target w1 = (Next dne, w2)"
      and read: "readChanges env ctx w2 = (Next (dc, cl), w3)"
      and some: "cl \<noteq> []"
      and base: "getLatestCommit env (input ctx)
                   (if truthy_bool dne then target else sourceBranchName (input ctx)) w3
                 = (Next old, w4)"
  shows "(let generated = ''Automated commit from Backstage scaffolder. Added files: ''
                            @ join '', '' (map (\<lambda>file. basename (path_lib env) (path file)) dc)
          in filter pushes (calls (snd (handler env ctx w))) =
               filter pushes (calls w) @
               [CreatePush
                  \<lparr> refUpdates = [\<lparr> name = ''refs/heads/'' @ sourceBranchName (input ctx),
                                    oldObjectId = old, newObjectId = None \<rparr>],
                    commits = [\<lparr> comment = (case commitMessage (input ctx) of
                                              None \<Rightarrow> generated
                                            | Some m \<Rightarrow> if m = [] then generated else m),
                                 changes = cl \<rparr>] \<rparr>
                  (repository_id repository) (project (input ctx))])
         \<and> truthy_bool dne =
             (truthy_bool (createSourceBranch (input ctx))
              \<and> (case fst (getBranch (gitApi env) (repo (input ctx)) (sourceBranchName (input ctx))
                             (project (input ctx)) (remote w1)) of
                   Inr (Some b) \<Rightarrow> False
                 | other \<Rightarrow> True))
         \<and> (case resolveFileRoot env ctx of
              Inl x \<Rightarrow> False
            | Inr fileRoot \<Rightarrow>
                serializeDirectoryContents env fileRoot = Inr dc
                \<and> generateGitChanges (path_lib env) dc fileRoot (targetPath (input ctx)) = Inr cl)"
proof -
  let ?inp = "input ctx"
  let ?push = "\<lparr> refUpdates = [\<lparr> name = source_ref ?inp, oldObjectId = old, newObjectId = None \<rparr>],
                 commits = [\<lparr> comment = push_comment (path_lib env) ?inp dc, changes = cl \<rparr>] \<rparr>"
  let ?call = "CreatePush ?push (repository_id repository) (project ?inp)"
  have reach: "steps_to_changes env ctx w = (Next (url, repository, target, dne, dc, cl), w3)"
    by (simp add: steps_to_changes_def bind_def target source read proceed_def)
  have before: "filter pushes (calls w3) = filter pushes (calls w)"
    by (rule quietD [OF quiet_steps_to_changes reach]) simp_all
  have w4: "filter pushes (calls w4) = filter pushes (calls w)"
    using quietD [OF quiet_getLatestCommit base] before by simp
  obtain out5 w5 where pushed:
    "await ?call (createPush (gitApi env) ?push (repository_id repository) (project ?inp)) w4 = (out5, w5)"
    by (cases "await ?call (createPush (gitApi env) ?push (repository_id repository) (project ?inp)) w4")
  have w5: "calls w5 = calls w4 @ [?call]"
    by (rule calls_awaitD [OF pushed])
  have pr: "quiet pushes (createOrReusePullRequest env ?inp url repository target)"
    by (rule quiet_createOrReusePullRequest) simp_all
  have run: "run_handler env ctx w =
               bind (await ?call (createPush (gitApi env) ?push (repository_id repository) (project ?inp)))
                 (\<lambda>_. createOrReusePullRequest env ?inp url repository target) w4"
    using some
    by (simp add: run_handler_from_changes [OF reach] bind_def buildPush_run base pushChanges_def)
  have "filter pushes (calls (snd (run_handler env ctx w))) = filter pushes (calls w5)"
    unfolding run
    by (simp add: quiet_after [of pushes "\<lambda>_. createOrReusePullRequest env ?inp url repository target",
          OF pr] pushed)
  then have calls: "filter pushes (calls (snd (handler env ctx w))) = filter pushes (calls w) @ [?call]"
    using w4 w5 by (simp add: snd_handler)
  have comment: "push_comment (path_lib env) ?inp dc =
      (case commitMessage ?inp of
         None \<Rightarrow> ''Automated commit from Backstage scaffolder. Added files: ''
                  @ join '', '' (map (\<lambda>file. basename (path_lib env) (path file)) dc)
       | Some m \<Rightarrow> if m = [] then ''Automated commit from Backstage scaffolder. Added files: ''
                  @ join '', '' (map (\<lambda>file. basename (path_lib env) (path file)) dc) else m)"
    by (simp add: push_comment_def automated_comment_def split: option.splits)
  show ?thesis
    using calls createSourceBranchIfMissing_Next [OF source] readChanges_Next [OF read]
    unfolding comment source_ref_def Let_def
    by simp
qed

lemma sim_message_target:
  "steps_to_target (sim_env sim_pat sim_files) sim_message sim_open
   = (Next (''https://dev.azure.com/my-org'', sim_repo, ''main''),
      sim_open\<lparr>calls := [GetGitApi ''https://dev.azure.com/my-org'' (PersonalAccessTokenHandler ''secret''),
                          GetRepository ''my-repo'' ''my project'']\<rparr>)"
  by code_simp

lemma sim_message_source:
  "createSourceBranchIfMissing (sim_env sim_pat sim_files) (input sim_message) sim_repo ''main''
     (sim_open\<lparr>calls := [GetGitApi ''https://dev.azure.com/my-org'' (PersonalAccessTokenHandler ''secret''),
                         GetRepository ''my-repo'' ''my project'']\<rparr>)
   = (Next (Some False),
      sim_open\<lparr>calls := [GetGitApi ''https://dev.azure.com/my-org'' (PersonalAccessTokenHandler ''secret''),
                          GetRepository ''my-repo'' ''my project'',
                          GetBranch ''my-repo'' ''feature'' ''my project'']\<rparr>)"
  by code_simp

lemma sim_message_read:
  "readChanges (sim_env sim_pat sim_files) sim_message
     (sim_open\<lparr>calls := [GetGitApi ''https://dev.azure.com/my-org'' (PersonalAccessTokenHandler ''secret''),
                         GetRepository ''my-repo'' ''my project'',
                         GetBranch ''my-repo'' ''feature'' ''my project'']\<rparr>)
   = (Next (sim_files, sim_changes),
      sim_open\<lparr>calls := [GetGitApi ''https://dev.azure.com/my-org'' (PersonalAccessTokenHandler ''secret''),
                          GetRepository ''my-repo'' ''my project'',
                          GetBranch ''my-repo'' ''feature'' ''my project'']\<rparr>)"
  by code_simp

lemma sim_message_base:
  "getLatestCommit (sim_env sim_pat sim_files) (input sim_message)
     (if truthy_bool (Some False) then ''main'' else sourceBranchName (input sim_message))
     (sim_open\<lparr>calls := [GetGitApi ''https://dev.azure.com/my-org'' (PersonalAccessTokenHandler ''secret''),
                         GetRepository ''my-repo'' ''my project'',
                         GetBranch ''my-repo'' ''feature'' ''my project'']\<rparr>)
   = (Next (Some ''f00d''),
      sim_open\<lparr>calls := [GetGitApi ''https://dev.azure.com/my-org'' (PersonalAccessTokenHandler ''secret''),
                          GetRepository ''my-repo'' ''my project'',
                          GetBranch ''my-repo'' ''feature'' ''my project'',
                          GetBranch ''my-repo'' ''feature'' ''my project'']\<rparr>)"
  by code_simp

theorem push_contents_witness:
  "filter pushes (calls (snd (handler (sim_env sim_pat sim_files) sim_message sim_open)))
   = [CreatePush
        \<lparr> refUpdates = [\<lparr> name = ''refs/heads/feature'', oldObjectId = Some ''f00d'',
                          newObjectId = None \<rparr>],
          commits = [\<lparr> comment = ''Add docs'', changes = sim_changes \<rparr>] \<rparr>
        (Some ''repo-1'') ''my project'']"
proof -
  have some: "sim_changes \<noteq> []" by (simp add: sim_changes_def)
  have start: "calls sim_open = []" by (simp add: sim_open_def)
  have inp: "sourceBranchName (input sim_message) = ''feature''"
    "project (input sim_message) = ''my project''"
    "commitMessage (input sim_message) = Some ''Add docs''"
    "repository_id sim_repo = Some ''repo-1''"
    by (simp_all add: sim_message_def sim_ctx_def sim_input_def sim_repo_def)
  from push_contents [OF sim_message_target sim_message_source sim_message_read some sim_message_base,
      THEN conjunct1]
  show ?thesis
    by (simp add: start inp Let_def)
qed

text \<open>
  The claim C8 as stated fails on the generated message: the listing below has an empty
  file, \<open>.gitkeep\<close>, which is not among the changes pushed and is named in the comment.
\<close>

theorem push_lists_unchanged_files:
  "filter pushes (calls (snd (handler (sim_env sim_pat sim_files) sim_ctx sim_start)))
     = [CreatePush
          \<lparr> refUpdates = [\<lparr> name = ''refs/heads/feature'', oldObjectId = Some ''c0ffee'',
                            newObjectId = None \<rparr>],
            commits = [\<lparr> comment = ''Automated commit from Backstage scaffolder. Added files: README.md, .gitkeep, main.ts'',
                         changes = sim_changes \<rparr>] \<rparr>
          (Some ''repo-1'') ''my project'']
   \<and> comment_of_changed_files (posix_path ''/'') sim_changes
       = ''Automated commit from Backstage scaffolder. Added files: README.md, main.ts''"
  by code_simp

section \<open>Reuse of an open pull request\<close>

text \<open>
  Claim C1. An invocation that reaches the pull-request stage and whose search for active
  pull requests from \<open>refs/heads/<sourceBranchName>\<close> to
  \<open>refs/heads/<resolvedTargetBranchName>\<close> answers a non-empty list makes no
  \<open>createPullRequest\<close> call. It takes the first pull request of the list: when
  \<open>!pullRequestId\<close> (no identifier, or the identifier 0) it throws the generic
  "created without an ID" error, otherwise it resolves after emitting that pull request's
  URL and identifier as the two outputs. The outputs depend on the first pull request's
  identifier alone, so two invocations that find the same pull request report the same
  identifier.
\<close>

theorem existing_pull_request_reused:
  assumes reach: "steps_to_push env ctx w = (Next (url, repository, target), w1)"
      and found: "getPullRequests (gitApi env) (repository_id repository)
                    (active_criteria (input ctx) target) (project (input ctx)) (remote w1)
                  = (Inr (Some (existing # others)), r)"
  shows "filter creates_pull_request (calls (snd (handler env ctx w)))
           = filter creates_pull_request (calls w)
         \<and> handler env ctx w =
             (let searched = w1\<lparr>remote := r,
                                 calls := calls w1 @ [GetPullRequests (repository_id repository)
                                            (active_criteria (input ctx) target) (project (input ctx))]\<rparr>
              in case pullRequestId existing of
                   None \<Rightarrow> (Inl (without_id env existing), searched)
                 | Some n \<Rightarrow>
                     if n = 0 then (Inl (without_id env existing), searched)
                     else (Inr (),
                           searched\<lparr>outputs := outputs w @
                             [(''pullRequestUrl'',
                               Str (getAzureDevOpsPullRequestURL (encodeURIComponent env) url
                                      (project (input ctx)) (repo (input ctx)) n)),
                              (''pullRequestId'', Num n)]\<rparr>))"
proof -
  note frame = steps_to_push_frame [OF reach]
  have run: "handler env ctx w =
      (case reportPullRequest env (input ctx) url existing
              (w1\<lparr>remote := r,
                  calls := calls w1 @ [GetPullRequests (repository_id repository)
                             (active_criteria (input ctx) target) (project (input ctx))]\<rparr>) of
         (Threw e, w') \<Rightarrow> (Inl e, w')
       | (Returned, w') \<Rightarrow> (Inr (), w')
       | (Next u, w') \<Rightarrow> (Inr (), w'))"
    by (simp add: handler_from_push [OF reach] createOrReusePullRequest_found [OF found])
  show ?thesis
  proof (cases "pullRequestId existing")
    case None
    then show ?thesis
      using frame by (simp add: run reportPullRequest_run)
  next
    case (Some n)
    then show ?thesis
      using frame by (cases "n = 0") (simp_all add: run reportPullRequest_run)
  qed
qed

lemma sim_reach:
  "steps_to_push (sim_env sim_pat sim_files) sim_ctx sim_open
   = (Next (''https://dev.azure.com/my-org'', sim_repo, ''main''),
      snd (steps_to_push (sim_env sim_pat sim_files) sim_ctx sim_open))"
  by code_simp

lemma sim_found:
  "getPullRequests (gitApi (sim_env sim_pat sim_files)) (repository_id sim_repo)
      (active_criteria (input sim_ctx) ''main'') (project (input sim_ctx))
      (remote (snd (steps_to_push (sim_env sim_pat sim_files) sim_ctx sim_open)))
   = (Inr (Some (sim_pr # [])),
      remote (snd (steps_to_push (sim_env sim_pat sim_files) sim_ctx sim_open)))"
  by code_simp

theorem existing_pull_request_reused_witness:
  "fst (handler (sim_env sim_pat sim_files) sim_ctx sim_open) = Inr ()
   \<and> outputs (snd (handler (sim_env sim_pat sim_files) sim_ctx sim_open))
       = [(''pullRequestUrl'', Str ''https://dev.azure.com/my-org/my%20project/_git/my-repo/pullrequest/7''),
          (''pullRequestId'', Num 7)]
   \<and> filter creates_pull_request (calls (snd (handler (sim_env sim_pat sim_files) sim_ctx sim_open))) = []"
proof -
  have url: "getAzureDevOpsPullRequestURL (encodeURIComponent (sim_env sim_pat sim_files))
               ''https://dev.azure.com/my-org'' (project (input sim_ctx)) (repo (input sim_ctx)) 7
             = ''https://dev.azure.com/my-org/my%20project/_git/my-repo/pullrequest/7''"
    by code_simp
  have id: "pullRequestId sim_pr = Some 7" by (simp add: sim_pr_def)
  have start: "calls sim_open = []" "outputs sim_open = []" by (simp_all add: sim_open_def)
  note reused = existing_pull_request_reused [OF sim_reach sim_found]
  from reused [THEN conjunct1] have none: "filter creates_pull_request
      (calls (snd (handler (sim_env sim_pat sim_files) sim_ctx sim_open))) = []"
    by (simp add: start)
  from reused [THEN conjunct2] have run: "handler (sim_env sim_pat sim_files) sim_ctx sim_open =
      (Inr (), snd (steps_to_push (sim_env sim_pat sim_files) sim_ctx sim_open)
         \<lparr>calls := calls (snd (steps_to_push (sim_env sim_pat sim_files) sim_ctx sim_open)) @
            [GetPullRequests (repository_id sim_repo) (active_criteria (input sim_ctx) ''main'')
               (project (input sim_ctx))],
          outputs := [(''pullRequestUrl'',
                       Str ''https://dev.azure.com/my-org/my%20project/_git/my-repo/pullrequest/7''),
                      (''pullRequestId'', Num 7)]\<rparr>)"
    by (simp add: id url start Let_def)
  from run have "fst (handler (sim_env sim_pat sim_files) sim_ctx sim_open) = Inr ()"
    and "outputs (snd (handler (sim_env sim_pat sim_files) sim_ctx sim_open))
       = [(''pullRequestUrl'', Str ''https://dev.azure.com/my-org/my%20project/_git/my-repo/pullrequest/7''),
          (''pullRequestId'', Num 7)]"
    by simp_all
  with none show ?thesis by blast
qed

text \<open>
  Two invocations in a row, each reaching the pull-request stage and finding the same pull
  request first: both resolve, both report its identifier, and neither creates one.
\<close>

lemma second_invocation_reuses:
  assumes first: "steps_to_push env ctx w = (Next (url, repository, target), w1)"
      and found: "getPullRequests (gitApi env) (repository_id repository)
                    (active_criteria (input ctx) target) (project (input ctx)) (remote w1)
                  = (Inr (Some (existing # others)), r)"
      and ident: "pullRequestId existing = Some n" "n \<noteq> 0"
      and second: "steps_to_push env ctx (snd (handler env ctx w))
                   = (Next (url', repository', target'), w1')"
      and found': "getPullRequests (gitApi env) (repository_id repository')
                     (active_criteria (input ctx) target') (project (input ctx)) (remote w1')
                   = (Inr (Some (existing # others')), r')"
  shows "fst (handler env ctx w) = Inr ()
         \<and> fst (handler env ctx (snd (handler env ctx w))) = Inr ()
         \<and> outputs (snd (handler env ctx (snd (handler env ctx w)))) =
             outputs w @
             [(''pullRequestUrl'',
               Str (getAzureDevOpsPullRequestURL (encodeURIComponent env) url
                      (project (input ctx)) (repo (input ctx)) n)),
              (''pullRequestId'', Num n),
              (''pullRequestUrl'',
               Str (getAzureDevOpsPullRequestURL (encodeURIComponent env) url'
                      (project (input ctx)) (repo (input ctx)) n)),
              (''pullRequestId'', Num n)]
         \<and> filter creates_pull_request (calls (snd (handler env ctx (snd (handler env ctx w)))))
             = filter creates_pull_request (calls w)"
proof -
  have once: "fst (handler env ctx v) = Inr ()
              \<and> outputs (snd (handler env ctx v)) = outputs v @
                   [(''pullRequestUrl'',
                     Str (getAzureDevOpsPullRequestURL (encodeURIComponent env) u
                            (project (input ctx)) (repo (input ctx)) n)),
                    (''pullRequestId'', Num n)]
              \<and> filter creates_pull_request (calls (snd (handler env ctx v)))
                   = filter creates_pull_request (calls v)"
    if reach: "steps_to_push env ctx v = (Next (u, rp, t), v1)"
      and search: "getPullRequests (gitApi env) (repository_id rp) (active_criteria (input ctx) t)
                     (project (input ctx)) (remote v1) = (Inr (Some (existing # os)), q)"
    for v u rp t v1 os q
    using steps_to_push_frame [OF reach] ident
    by (simp add: handler_from_push [OF reach] createOrReusePullRequest_found [OF search]
          reportPullRequest_run)
  from once [OF first found] once [OF second found'] show ?thesis
    by simp
qed

section \<open>Inputs that are accepted and not read\<close>

lemma inert_resolveClient:
  "resolveClient env (inp\<lparr>teamReviewers := tr, update := u\<rparr>) = resolveClient env inp"
  by (simp add: resolveClient_def base_url_def
        cong: option.case_cong sum.case_cong list.case_cong if_cong)

lemma inert_dryRunCheck:
  "dryRunCheck (ctx\<lparr>input := (input ctx)\<lparr>teamReviewers := tr, update := u\<rparr>\<rparr>) = dryRunCheck ctx"
  by (simp add: dryRunCheck_def performDryRun_def mocked_url_def
        cong: option.case_cong sum.case_cong list.case_cong if_cong)

lemma inert_ensureRepository:
  "ensureRepository env (inp\<lparr>teamReviewers := tr, update := u\<rparr>) = ensureRepository env inp"
  by (simp add: ensureRepository_def repository_not_found_def
        cong: option.case_cong sum.case_cong list.case_cong if_cong)

lemma inert_resolveTargetBranch:
  "resolveTargetBranch (inp\<lparr>teamReviewers := tr, update := u\<rparr>) repository
   = resolveTargetBranch inp repository"
  by (simp add: resolveTargetBranch_def defaultTargetBranch_def no_default_branch_def
        cong: option.case_cong sum.case_cong list.case_cong if_cong)

lemma inert_getLatestCommit:
  "getLatestCommit env (inp\<lparr>teamReviewers := tr, update := u\<rparr>) branch = getLatestCommit env inp branch"
  by (simp add: getLatestCommit_def branch_not_found_def
        cong: option.case_cong sum.case_cong list.case_cong if_cong)

lemma inert_createSourceBranchIfMissing:
  "createSourceBranchIfMissing env (inp\<lparr>teamReviewers := tr, update := u\<rparr>) repository target
   = createSourceBranchIfMissing env inp repository target"
  by (simp add: createSourceBranchIfMissing_def createBranch_def inert_getLatestCommit
        new_branch_update_def source_ref_def
        cong: option.case_cong sum.case_cong list.case_cong if_cong)

lemma inert_readChanges:
  "readChanges env (ctx\<lparr>input := (input ctx)\<lparr>teamReviewers := tr, update := u\<rparr>\<rparr>) = readChanges env ctx"
  by (simp add: readChanges_def resolveFileRoot_def
        cong: option.case_cong sum.case_cong list.case_cong if_cong)

lemma inert_buildPush:
  "buildPush env (inp\<lparr>teamReviewers := tr, update := u\<rparr>) target dne dc cl
   = buildPush env inp target dne dc cl"
  by (simp add: buildPush_def inert_getLatestCommit source_ref_def push_comment_def
        cong: option.case_cong sum.case_cong list.case_cong if_cong)

lemma inert_pushChanges:
  "pushChanges env (inp\<lparr>teamReviewers := tr, update := u\<rparr>) repository cl push
   = pushChanges env inp repository cl push"
  by (simp add: pushChanges_def
        cong: option.case_cong sum.case_cong list.case_cong if_cong)

lemma inert_createOrReusePullRequest:
  "createOrReusePullRequest env (inp\<lparr>teamReviewers := tr, update := u\<rparr>) url repository target
   = createOrReusePullRequest env inp url repository target"
  by (simp add: createOrReusePullRequest_def reportPullRequest_def new_pull_request_def
        active_criteria_def source_ref_def
        cong: option.case_cong sum.case_cong list.case_cong if_cong)

text \<open>
  Claim C9. \<open>teamReviewers\<close> and \<open>update\<close> are inert: changing them changes neither
  the handler's result nor the remote, the calls or the outputs it leaves.
\<close>

theorem teamReviewers_and_update_inert:
  "handler env (ctx\<lparr>input := (input ctx)\<lparr>teamReviewers := tr, update := u\<rparr>\<rparr>) w = handler env ctx w"
  by (simp add: handler_def run_handler_from_client inert_resolveClient inert_dryRunCheck
        inert_ensureRepository inert_resolveTargetBranch inert_createSourceBranchIfMissing
        inert_readChanges inert_buildPush inert_pushChanges inert_createOrReusePullRequest
        cong: option.case_cong sum.case_cong list.case_cong if_cong)

end
